theory Spec2Isabelle
  imports Complex_Main
begin

section \<open>Data model\<close>

text \<open>
  The module \<open>compliance_minimization.py\<close> defines one class, \<open>ComplianceMinimization\<close>.
  NumPy arrays of floats are lists of reals (the arithmetic is the exact one, not the
  rounded one of float64), integer arrays are lists of integers, and a two-dimensional
  array is the list of its rows. The sparse matrices are kept as the list of their rows
  too: only their entries matter here, not their storage format.
\<close>

type_synonym vec = "real list"
type_synonym rmat = "real list list"
type_synonym ivec = "int list"
type_synonym imat = "int list list"

datatype error = ValueError | IndexError | AttributeError | RuntimeError

text \<open>The triple \<open>(Kvals, cols, rowp)\<close> and the shape handed to \<open>sparse.csr_matrix\<close>.\<close>

record csr_matrix =
  data :: vec
  indices :: ivec
  indptr :: ivec
  shape :: "int \<times> int"

text \<open>
  The compiled module \<open>plane_stress\<close>, \<open>scipy.spatial.KDTree\<close> and
  \<open>scipy.sparse.linalg.factorized\<close> are not part of the repository: they are parameters
  of the model. A kernel that fills an output array returns the contents it writes; the
  caller's buffer is updated by \<open>inplace\<close> below. \<open>factorized\<close> returns the solve
  function, or \<open>None\<close> when it raises (a singular matrix).
\<close>

record kernels =
  computenzpattern :: "imat \<Rightarrow> imat \<Rightarrow> ivec \<Rightarrow> ivec \<Rightarrow> int \<times> ivec \<times> ivec"
  computemass :: "imat \<Rightarrow> rmat \<Rightarrow> vec \<Rightarrow> real"
  computemassderiv :: "imat \<Rightarrow> rmat \<Rightarrow> vec \<Rightarrow> vec"
  computekmat :: "imat \<Rightarrow> imat \<Rightarrow> rmat \<Rightarrow> real \<Rightarrow> rmat \<Rightarrow> vec \<Rightarrow> ivec \<Rightarrow> ivec \<Rightarrow> vec \<Rightarrow> vec"
  computekmatderiv :: "imat \<Rightarrow> imat \<Rightarrow> rmat \<Rightarrow> real \<Rightarrow> rmat \<Rightarrow> vec \<Rightarrow> vec \<Rightarrow> vec \<Rightarrow> vec \<Rightarrow> vec"
  query_ball_tree :: "rmat \<Rightarrow> real \<Rightarrow> nat list list"
  factorized :: "csr_matrix \<Rightarrow> (vec \<Rightarrow> vec) option"

text \<open>
  Every call that leaves the module is recorded, with its arguments, in the order the
  code makes it: the log is what the claims about "how often" and "with which argument"
  are stated on.
\<close>

datatype call =
    is_computenzpattern: Call_computenzpattern imat imat ivec ivec
  | is_computemass: Call_computemass imat rmat vec
  | is_computemassderiv: Call_computemassderiv imat rmat vec
  | is_computekmat: Call_computekmat imat imat rmat real rmat vec ivec ivec vec
  | is_computekmatderiv: Call_computekmatderiv imat imat rmat real rmat vec vec vec vec
  | is_query_ball_tree: Call_query_ball_tree rmat real
  | is_factorized: Call_factorized csr_matrix
  | is_LU: Call_LU vec

text \<open>
  The attributes of the object. \<open>Kmat\<close>, \<open>LU\<close> and \<open>u\<close> do not exist before the
  first call of \<open>compliance\<close>: reading them then raises \<open>AttributeError\<close>.
\<close>

record state =
  conn :: imat
  vars :: imat
  X :: rmat
  force :: vec
  qval :: real
  C :: rmat
  nvars :: int
  nnodes :: int
  cols :: ivec
  rowp :: ivec
  Kvals :: vec
  total_mass :: real
  F :: rmat
  Kmat :: "csr_matrix option"
  LU :: "(vec \<Rightarrow> vec) option"
  u :: "vec option"

section \<open>NumPy and SciPy operations used by the class\<close>

text \<open>\<open>np.max\<close> of an integer array; it raises on an array with no element.\<close>

definition np_max :: "imat \<Rightarrow> error + int" where
  "np_max a = (case concat a of [] \<Rightarrow> Inl ValueError | v # vs \<Rightarrow> Inr (fold max vs v))"

text \<open>\<open>np.zeros(n)\<close> and \<open>np.ones(n)\<close>; a negative dimension raises.\<close>

definition np_zeros :: "int \<Rightarrow> error + ('a::zero) list" where
  "np_zeros n = (if n < 0 then Inl ValueError else Inr (replicate (nat n) 0))"

definition np_ones :: "int \<Rightarrow> error + ('a::one) list" where
  "np_ones n = (if n < 0 then Inl ValueError else Inr (replicate (nat n) 1))"

text \<open>\<open>a[-1]\<close>.\<close>

definition last_item :: "'a list \<Rightarrow> error + 'a" where
  "last_item a = (case a of [] \<Rightarrow> Inl IndexError | _ # _ \<Rightarrow> Inr (last a))"

text \<open>
  \<open>target[:] = source\<close> on one-dimensional arrays: the lengths agree, or the source has
  one element, which is broadcast; anything else raises.
\<close>

definition assign_slice :: "'a list \<Rightarrow> 'a list \<Rightarrow> error + 'a list" where
  "assign_slice target source =
     (if length source = length target then Inr source
      else if length source = 1 then Inr (replicate (length target) (hd source))
      else Inl ValueError)"

text \<open>
  An external kernel writes into the array it is given: the array keeps its length,
  whatever the kernel produced.
\<close>

definition inplace :: "'a list \<Rightarrow> 'a list \<Rightarrow> 'a list" where
  "inplace buf out = take (length buf) out @ drop (length out) buf"

definition vsub :: "vec \<Rightarrow> vec \<Rightarrow> vec" where
  "vsub a b = map2 (-) a b"

definition dot :: "vec \<Rightarrow> vec \<Rightarrow> real" where
  "dot a b = sum_list (map2 (*) a b)"

text \<open>\<open>np.dot\<close> of two one-dimensional arrays; the lengths must agree.\<close>

definition np_dot :: "vec \<Rightarrow> vec \<Rightarrow> error + real" where
  "np_dot a b = (if length a \<noteq> length b then Inl ValueError else Inr (dot a b))"

text \<open>
  \<open>A.dot(x)\<close> for a sparse matrix with \<open>n\<close> columns, given by its rows; the length of
  \<open>x\<close> must be the number of columns.
\<close>

definition sparse_dot :: "int \<Rightarrow> rmat \<Rightarrow> vec \<Rightarrow> error + vec" where
  "sparse_dot n A x =
     (if int (length x) \<noteq> n then Inl ValueError else Inr (map (\<lambda>row. dot row x) A))"

text \<open>
  \<open>F[i, wvars] = w\<close> on a \<open>lil_matrix\<close>: the entries of row \<open>i\<close> at the columns
  \<open>wvars\<close> are set, in order; an index outside the matrix raises.
\<close>

definition set_row :: "rmat \<Rightarrow> nat \<Rightarrow> nat list \<Rightarrow> vec \<Rightarrow> error + rmat" where
  "set_row Fm i wvars w =
     (if length Fm \<le> i then Inl IndexError
      else if list_ex (\<lambda>j. length (Fm ! i) \<le> j) wvars then Inl IndexError
      else Inr (Fm[i := fold (\<lambda>(j, v) row. row[j := v]) (zip wvars w) (Fm ! i)]))"

section \<open>The constructor\<close>

text \<open>
  \<open>np.sqrt(np.dot(X[i,:] - X[j,:], X[i,:] - X[j,:]))\<close>, the distance of nodes \<open>i\<close>
  and \<open>j\<close>.
\<close>

definition node_dist :: "rmat \<Rightarrow> nat \<Rightarrow> nat \<Rightarrow> real" where
  "node_dist Xa i j = sqrt (dot (vsub (Xa ! i) (Xa ! j)) (vsub (Xa ! i) (Xa ! j)))"

text \<open>
  The inner loop \<open>for j in rlist\<close>, with the lists \<open>w\<close> and \<open>wvars\<close> it appends to.
  \<open>X[i,:]\<close> and \<open>X[j,:]\<close> raise for a row that \<open>X\<close> does not have.
\<close>

fun neighbour_weights :: "rmat \<Rightarrow> real \<Rightarrow> nat \<Rightarrow> nat list \<Rightarrow> vec \<times> nat list \<Rightarrow> error + vec \<times> nat list" where
  "neighbour_weights Xa r0 i [] (w, wvars) = Inr (w, wvars)"
| "neighbour_weights Xa r0 i (j # rlist) (w, wvars) =
     (if length Xa \<le> i \<or> length Xa \<le> j then Inl IndexError
      else let r = node_dist Xa i j in
        if r < r0 then neighbour_weights Xa r0 i rlist (w @ [(r0 - r) / r0], wvars @ [j])
        else neighbour_weights Xa r0 i rlist (w, wvars))"

text \<open>
  The outer loop \<open>for i, rlist in enumerate(result)\<close>: the weights of row \<open>i\<close> are
  divided by their sum and stored. \<open>w /= np.sum(w)\<close> does not raise, and on an empty
  \<open>w\<close> it divides nothing.
\<close>

fun filter_rows :: "rmat \<Rightarrow> real \<Rightarrow> nat \<Rightarrow> nat list list \<Rightarrow> rmat \<Rightarrow> error + rmat" where
  "filter_rows Xa r0 i [] Fm = Inr Fm"
| "filter_rows Xa r0 i (rlist # rest) Fm =
     (case neighbour_weights Xa r0 i rlist ([], []) of
        Inl e \<Rightarrow> Inl e
      | Inr (w, wvars) \<Rightarrow>
          (case set_row Fm i wvars (map (\<lambda>v. v / sum_list w) w) of
             Inl e \<Rightarrow> Inl e
           | Inr Fm' \<Rightarrow> filter_rows Xa r0 (Suc i) rest Fm'))"

text \<open>
  Lines 36 to 53: the non-zero pattern. The first call of the kernel gets a column
  buffer of one element (\<open>np.zeros(1)\<close>) and its result \<open>ncols\<close> sizes the buffer of
  the second call. Both calls write \<open>rowp\<close>. The result is \<open>(rowp, cols)\<close>.
\<close>

definition build_pattern :: "kernels \<Rightarrow> imat \<Rightarrow> imat \<Rightarrow> int \<Rightarrow> call list \<times> (error + ivec \<times> ivec)" where
  "build_pattern K conn_a vars_a nvars_a =
     (case np_zeros (nvars_a + 1) of
        Inl e \<Rightarrow> ([], Inl e)
      | Inr rowp0 \<Rightarrow>
          let cols0 = [0];
              connT = transpose conn_a;
              varsT = transpose vars_a;
              c1 = Call_computenzpattern connT varsT rowp0 cols0;
              (ncols, rowp_out1, cols_out1) = computenzpattern K connT varsT rowp0 cols0;
              rowp1 = inplace rowp0 rowp_out1
          in (case np_zeros ncols of
                Inl e \<Rightarrow> ([c1], Inl e)
              | Inr cols_temp0 \<Rightarrow>
                  let c2 = Call_computenzpattern connT varsT rowp1 cols_temp0;
                      (ncols2, rowp_out2, cols_out2) = computenzpattern K connT varsT rowp1 cols_temp0;
                      rowp2 = inplace rowp1 rowp_out2;
                      cols_temp = inplace cols_temp0 cols_out2
                  in (case last_item rowp2 of
                        Inl e \<Rightarrow> ([c1, c2], Inl e)
                      | Inr r \<Rightarrow>
                          (case np_zeros r of
                             Inl e \<Rightarrow> ([c1, c2], Inl e)
                           | Inr cols_z \<Rightarrow>
                               (case assign_slice cols_z (take (nat r) cols_temp) of
                                  Inl e \<Rightarrow> ([c1, c2], Inl e)
                                | Inr cols_f \<Rightarrow> ([c1, c2], Inr (rowp2, cols_f)))))))"

text \<open>
  Lines 59 to 84: the filter matrix, \<open>nnodes\<close> by \<open>nnodes\<close>, all zero before the loop
  fills it from the result of the ball query.
\<close>

definition build_filter :: "kernels \<Rightarrow> rmat \<Rightarrow> real \<Rightarrow> int \<Rightarrow> call list \<times> (error + rmat)" where
  "build_filter K Xa r0 nnodes_a =
     (let F0 = replicate (nat nnodes_a) (replicate (nat nnodes_a) 0);
          result = query_ball_tree K Xa r0
      in ([Call_query_ball_tree Xa r0], filter_rows Xa r0 0 result F0))"

text \<open>
  \<open>__init__(self, conn, vars, X, force, r0, qval, C)\<close>. It checks none of its
  arguments; what can raise is a NumPy operation. The call of the base class
  constructor keeps no data of this class and is left out.
\<close>

definition init :: "kernels \<Rightarrow> imat \<Rightarrow> imat \<Rightarrow> rmat \<Rightarrow> vec \<Rightarrow> real \<Rightarrow> real \<Rightarrow> rmat \<Rightarrow> call list \<times> (error + state)" where
  "init K conn_a vars_a Xa force_a r0 qval_a Ca =
     (case np_max vars_a of
        Inl e \<Rightarrow> ([], Inl e)
      | Inr mv \<Rightarrow>
          (case np_max conn_a of
             Inl e \<Rightarrow> ([], Inl e)
           | Inr mc \<Rightarrow>
               let nvars_a = mv + 1; nnodes_a = mc + 1 in
               (case build_pattern K conn_a vars_a nvars_a of
                  (l1, Inl e) \<Rightarrow> (l1, Inl e)
                | (l1, Inr (rowp_a, cols_a)) \<Rightarrow>
                    (case np_ones nnodes_a of
                       Inl e \<Rightarrow> (l1, Inl e)
                     | Inr rho \<Rightarrow>
                         let l2 = [Call_computemass (transpose conn_a) (transpose Xa) rho];
                             tm = computemass K (transpose conn_a) (transpose Xa) rho
                         in (case build_filter K Xa r0 nnodes_a of
                               (l3, Inl e) \<Rightarrow> (l1 @ l2 @ l3, Inl e)
                             | (l3, Inr Fm) \<Rightarrow>
                                 (l1 @ l2 @ l3,
                                  Inr \<lparr>conn = conn_a, vars = vars_a, X = Xa, force = force_a,
                                       qval = qval_a, C = Ca, nvars = nvars_a, nnodes = nnodes_a,
                                       cols = cols_a, rowp = rowp_a,
                                       Kvals = replicate (length cols_a) 0,
                                       total_mass = tm, F = Fm,
                                       Kmat = None, LU = None, u = None\<rparr>))))))"

section \<open>The methods\<close>

text \<open>
  A method returns the log of its external calls, the object after the call (an
  exception leaves the attributes assigned before it in place) and the value or the
  exception. The kernels of \<open>plane_stress\<close>, the construction of the sparse matrix
  from arrays whose lengths fit by construction, and the solve with a factorization that
  exists are taken to return; the factorization itself may raise.
\<close>

definition mass :: "kernels \<Rightarrow> state \<Rightarrow> vec \<Rightarrow> call list \<times> state \<times> (error + real)" where
  "mass K s x =
     ([Call_computemass (transpose (conn s)) (transpose (X s)) x], s,
      Inr (computemass K (transpose (conn s)) (transpose (X s)) x))"

definition mass_grad :: "kernels \<Rightarrow> state \<Rightarrow> vec \<Rightarrow> call list \<times> state \<times> (error + vec)" where
  "mass_grad K s x =
     (let dmdx = replicate (length x) 0 in
      ([Call_computemassderiv (transpose (conn s)) (transpose (X s)) dmdx], s,
       Inr (inplace dmdx (computemassderiv K (transpose (conn s)) (transpose (X s)) dmdx))))"

definition compliance :: "kernels \<Rightarrow> state \<Rightarrow> vec \<Rightarrow> call list \<times> state \<times> (error + real)" where
  "compliance K s x =
     (case sparse_dot (nnodes s) (F s) x of
        Inl e \<Rightarrow> ([], s, Inl e)
      | Inr rho \<Rightarrow>
          let connT = transpose (conn s); varsT = transpose (vars s);
              XT = transpose (X s); CT = transpose (C s);
              c1 = Call_computekmat connT varsT XT (qval s) CT rho (rowp s) (cols s) (Kvals s);
              Kvals_a = inplace (Kvals s)
                 (computekmat K connT varsT XT (qval s) CT rho (rowp s) (cols s) (Kvals s));
              Kmat_a = \<lparr>data = Kvals_a, indices = cols s, indptr = rowp s,
                        shape = (nvars s, nvars s)\<rparr>;
              s1 = s\<lparr>Kvals := Kvals_a, Kmat := Some Kmat_a\<rparr>
          in (case factorized K Kmat_a of
                None \<Rightarrow> ([c1, Call_factorized Kmat_a], s1, Inl RuntimeError)
              | Some lu \<Rightarrow>
                  let ua = lu (force s);
                      s2 = s1\<lparr>LU := Some lu, u := Some ua\<rparr>;
                      l = [c1, Call_factorized Kmat_a, Call_LU (force s)]
                  in (case np_dot (force s) ua of
                        Inl e \<Rightarrow> (l, s2, Inl e)
                      | Inr c \<Rightarrow> (l, s2, Inr c))))"

definition compliance_grad :: "kernels \<Rightarrow> state \<Rightarrow> vec \<Rightarrow> call list \<times> state \<times> (error + vec)" where
  "compliance_grad K s x =
     (case sparse_dot (nnodes s) (F s) x of
        Inl e \<Rightarrow> ([], s, Inl e)
      | Inr rho \<Rightarrow>
          let dKdrho = replicate (length x) 0 in
          (case u s of
             None \<Rightarrow> ([], s, Inl AttributeError)
           | Some ua \<Rightarrow>
               let connT = transpose (conn s); varsT = transpose (vars s);
                   XT = transpose (X s); CT = transpose (C s);
                   c1 = Call_computekmatderiv connT varsT XT (qval s) CT rho ua ua dKdrho;
                   dKdrho_a = inplace dKdrho
                      (computekmatderiv K connT varsT XT (qval s) CT rho ua ua dKdrho)
               in (case sparse_dot (nnodes s) (transpose (F s)) dKdrho_a of
                     Inl e \<Rightarrow> ([c1], s, Inl e)
                   | Inr v \<Rightarrow> ([c1], s, Inr (map uminus v)))))"

text \<open>
  \<open>getVarsAndBounds(self, x, lb, ub)\<close> fills the three arrays it is given and touches
  no attribute.
\<close>

definition getVarsAndBounds :: "state \<Rightarrow> vec \<Rightarrow> vec \<Rightarrow> vec \<Rightarrow> call list \<times> state \<times> (error + vec \<times> vec \<times> vec)" where
  "getVarsAndBounds s x lb ub =
     ([], s, Inr (map (\<lambda>v. 95 / 100) x, map (\<lambda>v. 1 / 1000) lb, map (\<lambda>v. 1) ub))"

text \<open>\<open>evalObjCon(self, x)\<close>: the fail flag, the objective and the array of one constraint.\<close>

definition evalObjCon :: "kernels \<Rightarrow> state \<Rightarrow> vec \<Rightarrow> call list \<times> state \<times> (error + int \<times> real \<times> vec)" where
  "evalObjCon K s x =
     (let fail = 0 in
      case compliance K s x of
        (l1, s1, Inl e) \<Rightarrow> (l1, s1, Inl e)
      | (l1, s1, Inr obj) \<Rightarrow>
          (case mass K s1 x of
             (l2, s2, Inl e) \<Rightarrow> (l1 @ l2, s2, Inl e)
           | (l2, s2, Inr m) \<Rightarrow> (l1 @ l2, s2, Inr (fail, obj, [4 / 10 * total_mass s1 - m]))))"

text \<open>
  \<open>evalObjConGradient(self, x, g, A)\<close>: \<open>g\<close> and the first row of \<open>A\<close> are
  overwritten; the model returns them with the fail flag.
\<close>

definition evalObjConGradient :: "kernels \<Rightarrow> state \<Rightarrow> vec \<Rightarrow> vec \<Rightarrow> rmat \<Rightarrow> call list \<times> state \<times> (error + int \<times> vec \<times> rmat)" where
  "evalObjConGradient K s x g A =
     (let fail = 0 in
      case compliance_grad K s x of
        (l1, s1, Inl e) \<Rightarrow> (l1, s1, Inl e)
      | (l1, s1, Inr dcdx) \<Rightarrow>
          (case assign_slice g dcdx of
             Inl e \<Rightarrow> (l1, s1, Inl e)
           | Inr g_a \<Rightarrow>
               (case mass_grad K s1 x of
                  (l2, s2, Inl e) \<Rightarrow> (l1 @ l2, s2, Inl e)
                | (l2, s2, Inr dmdx) \<Rightarrow>
                    (case A of
                       [] \<Rightarrow> (l1 @ l2, s2, Inl IndexError)
                     | a0 # rest \<Rightarrow>
                         (case assign_slice a0 (map uminus dmdx) of
                            Inl e \<Rightarrow> (l1 @ l2, s2, Inl e)
                          | Inr a0_a \<Rightarrow> (l1 @ l2, s2, Inr (fail, g_a, a0_a # rest)))))))"

section \<open>Notions used to state the properties\<close>

text \<open>
  The states an object can be in after construction: \<open>reachable K s0 s\<close> holds when
  \<open>s\<close> results from \<open>s0\<close> by a sequence of method calls, whatever their arguments and
  whether they return or raise.
\<close>

inductive reachable :: "kernels \<Rightarrow> state \<Rightarrow> state \<Rightarrow> bool" for K :: kernels and s0 :: state where
  reachable_init: "reachable K s0 s0"
| reachable_mass: "reachable K s0 s \<Longrightarrow> reachable K s0 (fst (snd (mass K s x)))"
| reachable_mass_grad: "reachable K s0 s \<Longrightarrow> reachable K s0 (fst (snd (mass_grad K s x)))"
| reachable_compliance: "reachable K s0 s \<Longrightarrow> reachable K s0 (fst (snd (compliance K s x)))"
| reachable_compliance_grad:
    "reachable K s0 s \<Longrightarrow> reachable K s0 (fst (snd (compliance_grad K s x)))"
| reachable_getVarsAndBounds:
    "reachable K s0 s \<Longrightarrow> reachable K s0 (fst (snd (getVarsAndBounds s x lb ub)))"
| reachable_evalObjCon: "reachable K s0 s \<Longrightarrow> reachable K s0 (fst (snd (evalObjCon K s x)))"
| reachable_evalObjConGradient:
    "reachable K s0 s \<Longrightarrow> reachable K s0 (fst (snd (evalObjConGradient K s x g A)))"

text \<open>The weight \<open>(r0 - r)/r0\<close> of node \<open>j\<close> in row \<open>i\<close>, before normalisation.\<close>

definition weight :: "rmat \<Rightarrow> real \<Rightarrow> nat \<Rightarrow> nat \<Rightarrow> real" where
  "weight Xa r0 i j = (r0 - node_dist Xa i j) / r0"

text \<open>A matrix whose rows have no negative entry and sum to 1.\<close>

definition row_stochastic :: "rmat \<Rightarrow> bool" where
  "row_stochastic A \<longleftrightarrow> list_all (\<lambda>row. list_all (\<lambda>v. 0 \<le> v) row \<and> sum_list row = 1) A"

text \<open>
  What the class relies on from \<open>KDTree.query_ball_tree\<close>: one list for each point,
  of indices of points, without repetition, that misses no point closer than \<open>r0\<close>.
\<close>

definition ball_query_ok :: "rmat \<Rightarrow> real \<Rightarrow> nat list list \<Rightarrow> bool" where
  "ball_query_ok Xa r0 res \<longleftrightarrow>
     length res = length Xa \<and>
     list_all (\<lambda>i. distinct (res ! i) \<and> list_all (\<lambda>j. j < length Xa) (res ! i) \<and>
                 list_all (\<lambda>j. node_dist Xa i j < r0 \<longrightarrow> j \<in> set (res ! i)) [0..<length Xa])
       [0..<length Xa]"

text \<open>A ball query by exhaustive search: the points at distance at most \<open>r0\<close>.\<close>

definition ball_query :: "rmat \<Rightarrow> real \<Rightarrow> nat list list" where
  "ball_query Xa r0 =
     map (\<lambda>i. filter (\<lambda>j. node_dist Xa i j \<le> r0) [0..<length Xa]) [0..<length Xa]"

text \<open>
  A small instance for the concrete checks: two nodes at distance 1, one element, node 0
  held, and stand-ins for the kernels (a diagonal stiffness proportional to the total
  filtered density, singular when that is zero). \<open>ex_conn_gap\<close> is a connectivity
  that names a node 2, for which \<open>ex_X\<close> has no row.
\<close>

definition ex_conn :: imat where "ex_conn = [[0, 1]]"
definition ex_conn_gap :: imat where "ex_conn_gap = [[0, 2]]"
definition ex_vars :: imat where "ex_vars = [[-1, -1], [0, 1]]"
definition ex_X :: rmat where "ex_X = [[0, 0], [1, 0]]"
definition ex_force :: vec where "ex_force = [0, 1]"
definition ex_C :: rmat where "ex_C = [[1]]"

definition ex_kernels :: kernels where
  "ex_kernels =
     \<lparr>computenzpattern = (\<lambda>cn vr rp cl. (4, [0, 2, 4], [0, 1, 0, 1])),
      computemass = (\<lambda>cn xs rho. sum_list rho / 2),
      computemassderiv = (\<lambda>cn xs d. map (\<lambda>v. 1 / 2) d),
      computekmat = (\<lambda>cn vr xs q cm rho rp cl kv. [sum_list rho, 0, 0, sum_list rho]),
      computekmatderiv = (\<lambda>cn vr xs q cm rho ua va d. map (\<lambda>v. dot ua va) d),
      query_ball_tree = ball_query,
      factorized = (\<lambda>A. if hd (data A) = 0 then None
                          else Some (map (\<lambda>v. v / hd (data A))))\<rparr>"

definition ex_state :: "real \<Rightarrow> state" where
  "ex_state r0 = projr (snd (init ex_kernels ex_conn ex_vars ex_X ex_force r0 3 ex_C))"

section \<open>Auxiliary facts\<close>

subsection \<open>Distances and the filter loops\<close>

lemma dot_self_nonneg: "0 \<le> dot v v"
  unfolding dot_def by (induction v) auto

lemma node_dist_nonneg: "0 \<le> node_dist Xa i j"
  by (simp add: node_dist_def dot_self_nonneg)

lemma vsub_self_dot: "dot (vsub a a) (vsub a a) = 0"
  unfolding dot_def vsub_def by (induction a) auto

lemma node_dist_self: "node_dist Xa i i = 0"
  by (simp add: node_dist_def vsub_self_dot)

lemma neighbour_weights_Inr:
  "neighbour_weights Xa r0 i rlist (w, wv) = Inr (w', wv') \<Longrightarrow>
     wv' = wv @ filter (\<lambda>j. node_dist Xa i j < r0) rlist \<and>
     w' = w @ map (weight Xa r0 i) (filter (\<lambda>j. node_dist Xa i j < r0) rlist) \<and>
     (\<forall>j\<in>set rlist. j < length Xa)"
proof (induction rlist arbitrary: w wv)
  case Nil
  then show ?case by simp
next
  case (Cons j rlist)
  from Cons.prems have inr: "i < length Xa" "j < length Xa"
    by (auto split: if_splits)
  show ?case
  proof (cases "node_dist Xa i j < r0")
    case True
    with Cons.prems inr have
      "neighbour_weights Xa r0 i rlist (w @ [(r0 - node_dist Xa i j) / r0], wv @ [j]) = Inr (w', wv')"
      by (simp add: Let_def)
    from Cons.IH[OF this] True inr show ?thesis by (simp add: weight_def)
  next
    case False
    with Cons.prems inr have "neighbour_weights Xa r0 i rlist (w, wv) = Inr (w', wv')"
      by (simp add: Let_def)
    from Cons.IH[OF this] False inr show ?thesis by simp
  qed
qed

lemma fold_upd_length:
  "length (fold (\<lambda>(j, v) row. row[j := v]) ps row) = length row"
  by (induction ps arbitrary: row) auto

lemma fold_upd_nth:
  "k < length row \<Longrightarrow>
   fold (\<lambda>(j, v) row. row[j := v]) (zip js (map f js)) row ! k = (if k \<in> set js then f k else row ! k)"
  by (induction js arbitrary: row) (auto simp: nth_list_update)

lemma sum_list_indicator:
  assumes "distinct js" "\<forall>j\<in>set js. j < n"
  shows "sum_list (map (\<lambda>k. if k \<in> set js then f k else (0::real)) [0..<n]) = sum_list (map f js)"
proof -
  have "sum_list (map (\<lambda>k. if k \<in> set js then f k else 0) [0..<n]) = (\<Sum>k\<in>{0..<n}. if k \<in> set js then f k else 0)"
    by (simp add: sum_list_distinct_conv_sum_set)
  also have "\<dots> = (\<Sum>k\<in>set js. f k)"
    using assms(2) by (subst sum.inter_restrict[symmetric]) (auto intro: sum.cong simp: Int_absorb1 subset_iff)
  also have "\<dots> = sum_list (map f js)"
    using assms(1) by (simp add: sum_list_distinct_conv_sum_set)
  finally show ?thesis .
qed

lemma filter_rows_Inr:
  "filter_rows Xa r0 i0 res F0 = Inr Fm \<Longrightarrow>
     length Fm = length F0 \<and>
     (\<forall>m<length F0. m < i0 \<or> i0 + length res \<le> m \<longrightarrow> Fm ! m = F0 ! m) \<and>
     (\<forall>k<length res. i0 + k < length F0 \<and> (\<forall>j\<in>set (res ! k). j < length Xa) \<and>
        (\<forall>j\<in>set (filter (\<lambda>j. node_dist Xa (i0 + k) j < r0) (res ! k)). j < length (F0 ! (i0 + k))) \<and>
        Fm ! (i0 + k) =
          fold (\<lambda>(j, v) row. row[j := v])
            (zip (filter (\<lambda>j. node_dist Xa (i0 + k) j < r0) (res ! k))
               (map (\<lambda>j. weight Xa r0 (i0 + k) j /
                        sum_list (map (weight Xa r0 (i0 + k)) (filter (\<lambda>j. node_dist Xa (i0 + k) j < r0) (res ! k))))
                  (filter (\<lambda>j. node_dist Xa (i0 + k) j < r0) (res ! k))))
            (F0 ! (i0 + k)))"
proof (induction res arbitrary: i0 F0)
  case Nil
  then show ?case by simp
next
  case (Cons rlist rest)
  from Cons.prems obtain w wv F1 where
    nw: "neighbour_weights Xa r0 i0 rlist ([], []) = Inr (w, wv)" and
    sr: "set_row F0 i0 wv (map (\<lambda>v. v / sum_list w) w) = Inr F1" and
    rec: "filter_rows Xa r0 (Suc i0) rest F1 = Inr Fm"
    by (auto split: sum.splits prod.splits)
  from neighbour_weights_Inr[OF nw] have
    wv: "wv = filter (\<lambda>j. node_dist Xa i0 j < r0) rlist" and
    w: "w = map (weight Xa r0 i0) wv" and
    rl: "\<forall>j\<in>set rlist. j < length Xa" by auto
  from sr have i0: "i0 < length F0" and
    inr: "\<forall>j\<in>set wv. j < length (F0 ! i0)" and
    F1: "F1 = F0[i0 := fold (\<lambda>(j, v) row. row[j := v]) (zip wv (map (\<lambda>v. v / sum_list w) w)) (F0 ! i0)]"
    by (auto simp: set_row_def list_ex_iff split: if_splits)
  have lenF1: "length F1 = length F0" using F1 by simp
  note IH = Cons.IH[OF rec]
  have len: "length Fm = length F0" using IH lenF1 by simp
  have row0: "Fm ! i0 = F1 ! i0" using IH i0 lenF1 by simp
  have F1i0: "F1 ! i0 = fold (\<lambda>(j, v) row. row[j := v]) (zip wv (map (\<lambda>j. weight Xa r0 i0 j / sum_list (map (weight Xa r0 i0) wv)) wv)) (F0 ! i0)"
    using F1 i0 w by (simp add: comp_def)
  have other: "\<And>m. m \<noteq> i0 \<Longrightarrow> F1 ! m = F0 ! m" using F1 by simp
  show ?case
  proof (intro conjI allI impI)
    show "length Fm = length F0" by (rule len)
  next
    fix m assume m: "m < length F0" "m < i0 \<or> i0 + length (rlist # rest) \<le> m"
    then have "Fm ! m = F1 ! m" using IH lenF1 by auto
    also have "\<dots> = F0 ! m" using m other by auto
    finally show "Fm ! m = F0 ! m" .
  next
    fix k assume k: "k < length (rlist # rest)"
    show "i0 + k < length F0" 
      using k i0 IH lenF1 by (cases k) auto
  next
    fix k assume k: "k < length (rlist # rest)"
    show "\<forall>j\<in>set ((rlist # rest) ! k). j < length Xa"
      using k rl IH by (cases k) auto
  next
    fix k assume k: "k < length (rlist # rest)"
    show "\<forall>j\<in>set (filter (\<lambda>j. node_dist Xa (i0 + k) j < r0) ((rlist # rest) ! k)). j < length (F0 ! (i0 + k))"
    proof (cases k)
      case 0
      then show ?thesis using inr wv by simp
    next
      case (Suc k')
      then have "k' < length rest" using k by simp
      with IH have "\<forall>j\<in>set (filter (\<lambda>j. node_dist Xa (Suc i0 + k') j < r0) (rest ! k')). j < length (F1 ! (Suc i0 + k'))" by blast
      then show ?thesis using Suc other[of "Suc i0 + k'"] by simp
    qed
  next
    fix k assume k: "k < length (rlist # rest)"
    let ?N = "\<lambda>k. filter (\<lambda>j. node_dist Xa (i0 + k) j < r0) ((rlist # rest) ! k)"
    show "Fm ! (i0 + k) = fold (\<lambda>(j, v) row. row[j := v])
            (zip (?N k) (map (\<lambda>j. weight Xa r0 (i0 + k) j / sum_list (map (weight Xa r0 (i0 + k)) (?N k))) (?N k)))
            (F0 ! (i0 + k))"
    proof (cases k)
      case 0
      then show ?thesis using row0 F1i0 wv by simp
    next
      case (Suc k')
      then have "k' < length rest" using k by simp
      with IH have "Fm ! (Suc i0 + k') = fold (\<lambda>(j, v) row. row[j := v])
            (zip (filter (\<lambda>j. node_dist Xa (Suc i0 + k') j < r0) (rest ! k'))
               (map (\<lambda>j. weight Xa r0 (Suc i0 + k') j /
                        sum_list (map (weight Xa r0 (Suc i0 + k')) (filter (\<lambda>j. node_dist Xa (Suc i0 + k') j < r0) (rest ! k'))))
                  (filter (\<lambda>j. node_dist Xa (Suc i0 + k') j < r0) (rest ! k'))))
            (F1 ! (Suc i0 + k'))" by blast
      then show ?thesis using Suc other[of "Suc i0 + k'"] by simp
    qed
  qed
qed

subsection \<open>The small instance, evaluated\<close>

lemma ex_len: "length ex_X = 2" by (simp add: ex_X_def)

lemma ex_node_dist: "node_dist ex_X 0 0 = 0" "node_dist ex_X (Suc 0) (Suc 0) = 0" "node_dist ex_X 0 (Suc 0) = 1" "node_dist ex_X (Suc 0) 0 = 1"
  by (simp_all add: node_dist_def ex_X_def vsub_def dot_def)

lemma ex_upt: "[0..<2] = [0, Suc 0]"
  by (simp add: upt_rec[of 0] upt_rec[of 1] upt_rec[of "Suc 0"])

lemma ex_ball_query_small: "0 \<le> r0 \<Longrightarrow> r0 < 1 \<Longrightarrow> ball_query ex_X r0 = [[0], [Suc 0]]"
  by (simp add: ball_query_def ex_len ex_upt ex_node_dist)

lemma ex_ball_query_large: "1 \<le> r0 \<Longrightarrow> ball_query ex_X r0 = [[0, Suc 0], [0, Suc 0]]"
  by (simp add: ball_query_def ex_len ex_upt ex_node_dist)

lemma ex_ball_query_neg: "r0 < 0 \<Longrightarrow> ball_query ex_X r0 = [[], []]"
  by (simp add: ball_query_def ex_len ex_upt ex_node_dist)

lemma ex_transpose: "transpose ex_conn = [[0], [1]]" "transpose ex_vars = [[-1, 0], [-1, 1]]"
    "transpose ex_X = [[0, 1], [0, 0]]" "transpose ex_C = [[1]]"
  by (simp_all add: ex_conn_def ex_vars_def ex_X_def ex_C_def)

lemma ex_np_max: "np_max ex_vars = Inr 1" "np_max ex_conn = Inr 1"
  by (simp_all add: np_max_def ex_vars_def ex_conn_def)

lemma ex_kernels_sel:
  "computemass ex_kernels cn xs rho = sum_list rho / 2"
  "computemassderiv ex_kernels cn xs d = map (\<lambda>v. 1 / 2) d"
  "computekmat ex_kernels cn vr xs q cm rho rp cl kv = [sum_list rho, 0, 0, sum_list rho]"
  "computekmatderiv ex_kernels cn vr xs q cm rho ua va d = map (\<lambda>v. dot ua va) d"
  "query_ball_tree ex_kernels = ball_query"
  "factorized ex_kernels A = (if hd (data A) = 0 then None else Some (map (\<lambda>v. v / hd (data A))))"
  by (simp_all add: ex_kernels_def)

lemma ex_build_pattern:
  "build_pattern ex_kernels ex_conn ex_vars 2 =
     ([Call_computenzpattern [[0], [1]] [[-1, 0], [-1, 1]] [0, 0, 0] [0],
       Call_computenzpattern [[0], [1]] [[-1, 0], [-1, 1]] [0, 2, 4] [0, 0, 0, 0]],
      Inr ([0, 2, 4], [0, 1, 0, 1]))"
  by (simp add: build_pattern_def ex_transpose np_zeros_def ex_kernels_def inplace_def
      last_item_def assign_slice_def eval_nat_numeral Let_def)

lemma ex_filter_zero:
  "filter_rows ex_X 0 0 [[0], [Suc 0]] [[0, 0], [0, 0]] = Inr [[0, 0], [0, 0]]"
  by (simp add: ex_len ex_node_dist set_row_def)

lemma ex_filter_neg:
  "filter_rows ex_X r0 0 [[], []] [[0, 0], [0, 0]] = Inr [[0, 0], [0, 0]]"
  by (simp add: set_row_def)

lemma ex_filter_large:
  "filter_rows ex_X (3/2) 0 [[0, Suc 0], [0, Suc 0]] [[0, 0], [0, 0]] = Inr [[3/4, 1/4], [1/4, 3/4]]"
  by (simp add: ex_len ex_node_dist set_row_def Let_def)

lemma ex_init_tail:
  "filter_rows ex_X r0 0 (ball_query ex_X r0) [[0, 0], [0, 0]] = Inr Fm \<Longrightarrow>
   init ex_kernels ex_conn ex_vars ex_X ex_force r0 3 ex_C = 
  ([Call_computenzpattern [[0], [1]] [[-1, 0], [-1, 1]] [0, 0, 0] [0],
    Call_computenzpattern [[0], [1]] [[-1, 0], [-1, 1]] [0, 2, 4] [0, 0, 0, 0],
    Call_computemass [[0], [1]] [[0, 1], [0, 0]] [1, 1],
    Call_query_ball_tree ex_X r0],
   Inr \<lparr>conn = ex_conn, vars = ex_vars, X = ex_X, force = ex_force,
         qval = 3, C = ex_C, nvars = 2, nnodes = 2,
         cols = [0, 1, 0, 1], rowp = [0, 2, 4], Kvals = [0, 0, 0, 0],
         total_mass = 1, F = Fm, Kmat = None, LU = None, u = None\<rparr>)"
  by (simp add: init_def ex_np_max ex_build_pattern ex_transpose build_filter_def
      np_ones_def ex_kernels_sel eval_nat_numeral Let_def)

lemma ex_state_large:
  "init ex_kernels ex_conn ex_vars ex_X ex_force (3/2) 3 ex_C =
  ([Call_computenzpattern [[0], [1]] [[-1, 0], [-1, 1]] [0, 0, 0] [0],
    Call_computenzpattern [[0], [1]] [[-1, 0], [-1, 1]] [0, 2, 4] [0, 0, 0, 0],
    Call_computemass [[0], [1]] [[0, 1], [0, 0]] [1, 1],
    Call_query_ball_tree ex_X (3/2)],
   Inr \<lparr>conn = ex_conn, vars = ex_vars, X = ex_X, force = ex_force,
         qval = 3, C = ex_C, nvars = 2, nnodes = 2,
         cols = [0, 1, 0, 1], rowp = [0, 2, 4], Kvals = [0, 0, 0, 0],
         total_mass = 1, F = [[3/4, 1/4], [1/4, 3/4]], Kmat = None, LU = None, u = None\<rparr>)"
  by (rule ex_init_tail) (simp only: ex_ball_query_large[of "3/2", simplified] ex_filter_large)

lemma ex_state_zero:
  "init ex_kernels ex_conn ex_vars ex_X ex_force 0 3 ex_C =
  ([Call_computenzpattern [[0], [1]] [[-1, 0], [-1, 1]] [0, 0, 0] [0],
    Call_computenzpattern [[0], [1]] [[-1, 0], [-1, 1]] [0, 2, 4] [0, 0, 0, 0],
    Call_computemass [[0], [1]] [[0, 1], [0, 0]] [1, 1],
    Call_query_ball_tree ex_X 0],
   Inr \<lparr>conn = ex_conn, vars = ex_vars, X = ex_X, force = ex_force,
         qval = 3, C = ex_C, nvars = 2, nnodes = 2,
         cols = [0, 1, 0, 1], rowp = [0, 2, 4], Kvals = [0, 0, 0, 0],
         total_mass = 1, F = [[0, 0], [0, 0]], Kmat = None, LU = None, u = None\<rparr>)"
  by (rule ex_init_tail) (simp only: ex_ball_query_small[of 0, simplified] ex_filter_zero)

lemma ex_state_neg:
  "init ex_kernels ex_conn ex_vars ex_X ex_force (-1) 3 ex_C =
  ([Call_computenzpattern [[0], [1]] [[-1, 0], [-1, 1]] [0, 0, 0] [0],
    Call_computenzpattern [[0], [1]] [[-1, 0], [-1, 1]] [0, 2, 4] [0, 0, 0, 0],
    Call_computemass [[0], [1]] [[0, 1], [0, 0]] [1, 1],
    Call_query_ball_tree ex_X (-1)],
   Inr \<lparr>conn = ex_conn, vars = ex_vars, X = ex_X, force = ex_force,
         qval = 3, C = ex_C, nvars = 2, nnodes = 2,
         cols = [0, 1, 0, 1], rowp = [0, 2, 4], Kvals = [0, 0, 0, 0],
         total_mass = 1, F = [[0, 0], [0, 0]], Kmat = None, LU = None, u = None\<rparr>)"
  by (rule ex_init_tail) (simp only: ex_ball_query_neg[of "-1", simplified] ex_filter_neg)

lemma ex_state_eq:
  "ex_state (3/2) = \<lparr>conn = ex_conn, vars = ex_vars, X = ex_X, force = ex_force,
         qval = 3, C = ex_C, nvars = 2, nnodes = 2,
         cols = [0, 1, 0, 1], rowp = [0, 2, 4], Kvals = [0, 0, 0, 0],
         total_mass = 1, F = [[3/4, 1/4], [1/4, 3/4]], Kmat = None, LU = None, u = None\<rparr>"
  by (simp add: ex_state_def ex_state_large)

lemma ex_compliance:
  "compliance ex_kernels (ex_state (3/2)) [1, 0] =
     ([Call_computekmat [[0], [1]] [[-1, 0], [-1, 1]] [[0, 1], [0, 0]] 3 [[1]] [3/4, 1/4]
         [0, 2, 4] [0, 1, 0, 1] [0, 0, 0, 0],
       Call_factorized \<lparr>data = [1, 0, 0, 1], indices = [0, 1, 0, 1], indptr = [0, 2, 4], shape = (2, 2)\<rparr>,
       Call_LU [0, 1]],
      (ex_state (3/2))\<lparr>Kvals := [1, 0, 0, 1],
         Kmat := Some \<lparr>data = [1, 0, 0, 1], indices = [0, 1, 0, 1], indptr = [0, 2, 4], shape = (2, 2)\<rparr>,
         LU := Some (map (\<lambda>v. v / 1)), u := Some [0, 1]\<rparr>,
      Inr 1)"
  by (simp add: compliance_def ex_state_eq sparse_dot_def dot_def ex_transpose ex_kernels_sel
      inplace_def Let_def np_dot_def ex_force_def)

subsection \<open>Frame facts and the constructor\<close>

lemma compliance_frame:
  "conn (fst (snd (compliance K s x))) = conn s \<and> vars (fst (snd (compliance K s x))) = vars s \<and>
   X (fst (snd (compliance K s x))) = X s \<and> force (fst (snd (compliance K s x))) = force s \<and>
   qval (fst (snd (compliance K s x))) = qval s \<and> C (fst (snd (compliance K s x))) = C s \<and>
   nvars (fst (snd (compliance K s x))) = nvars s \<and> nnodes (fst (snd (compliance K s x))) = nnodes s \<and>
   cols (fst (snd (compliance K s x))) = cols s \<and> rowp (fst (snd (compliance K s x))) = rowp s \<and>
   total_mass (fst (snd (compliance K s x))) = total_mass s \<and> F (fst (snd (compliance K s x))) = F s"
  by (simp add: compliance_def Let_def split: sum.splits option.splits)

lemma compliance_grad_state: "fst (snd (compliance_grad K s x)) = s"
  by (simp add: compliance_grad_def Let_def split: sum.splits option.splits)

lemma mass_state: "fst (snd (mass K s x)) = s"
  by (simp add: mass_def)

lemma mass_grad_state: "fst (snd (mass_grad K s x)) = s"
  by (simp add: mass_grad_def Let_def)

lemma getVarsAndBounds_state: "fst (snd (getVarsAndBounds s x lb ub)) = s"
  by (simp add: getVarsAndBounds_def)

lemma evalObjCon_state: "fst (snd (evalObjCon K s x)) = fst (snd (compliance K s x))"
  by (simp add: evalObjCon_def mass_def split: prod.splits sum.splits)

lemma evalObjConGradient_state: "fst (snd (evalObjConGradient K s x g A)) = s"
proof -
  obtain l r where cg: "compliance_grad K s x = (l, s, r)"
    using compliance_grad_state[of K s x] by (cases "compliance_grad K s x") auto
  obtain l2 r2 where mg: "mass_grad K s x = (l2, s, r2)"
    using mass_grad_state[of K s x] by (cases "mass_grad K s x") auto
  show ?thesis
    by (simp add: evalObjConGradient_def cg mg split: sum.splits list.splits)
qed

lemma reachable_frame:
  "reachable K s0 s \<Longrightarrow>
     conn s = conn s0 \<and> vars s = vars s0 \<and> X s = X s0 \<and> force s = force s0 \<and>
     qval s = qval s0 \<and> C s = C s0 \<and> nvars s = nvars s0 \<and> nnodes s = nnodes s0 \<and>
     cols s = cols s0 \<and> rowp s = rowp s0 \<and> total_mass s = total_mass s0 \<and> F s = F s0"
proof (induction rule: reachable.induct)
  case reachable_init
  show ?case by simp
next
  case (reachable_mass s x)
  then show ?case by (simp add: mass_state)
next
  case (reachable_mass_grad s x)
  then show ?case by (simp add: mass_grad_state)
next
  case (reachable_compliance s x)
  then show ?case using compliance_frame[of K s x] by simp
next
  case (reachable_compliance_grad s x)
  then show ?case by (simp add: compliance_grad_state)
next
  case (reachable_getVarsAndBounds s x lb ub)
  then show ?case by (simp add: getVarsAndBounds_state)
next
  case (reachable_evalObjCon s x)
  then show ?case using compliance_frame[of K s x] by (simp add: evalObjCon_state)
next
  case (reachable_evalObjConGradient s x g A)
  then show ?case by (simp add: evalObjConGradient_state)
qed

lemma build_pattern_log:
  "build_pattern K conn_a vars_a nv = (l, Inr pc) \<Longrightarrow>
     l = [Call_computenzpattern (transpose conn_a) (transpose vars_a) (replicate (nat (nv + 1)) 0) [0],
          Call_computenzpattern (transpose conn_a) (transpose vars_a)
            (inplace (replicate (nat (nv + 1)) 0)
               (fst (snd (computenzpattern K (transpose conn_a) (transpose vars_a) (replicate (nat (nv + 1)) 0) [0]))))
            (replicate (nat (fst (computenzpattern K (transpose conn_a) (transpose vars_a) (replicate (nat (nv + 1)) 0) [0]))) 0)]"
  by (auto simp: build_pattern_def np_zeros_def Let_def split: if_splits prod.splits sum.splits)

lemma inplace_length: "length (inplace buf out) = length buf"
  by (simp add: inplace_def)

lemma build_pattern_result:
  "build_pattern K conn_a vars_a nv = (l, Inr (rp, cl)) \<Longrightarrow>
     int (length rp) = nv + 1 \<and> last_item rp = Inr (int (length cl))"
  by (auto simp: build_pattern_def np_zeros_def Let_def inplace_length assign_slice_def
      split: if_splits prod.splits sum.splits)

lemma init_Inr:
  "init K conn_a vars_a Xa force_a r0 qval_a Ca = (l, Inr s) \<Longrightarrow>
   \<exists>mv mc l1 Fm. np_max vars_a = Inr mv \<and> np_max conn_a = Inr mc \<and> 0 \<le> mc + 1 \<and>
     build_pattern K conn_a vars_a (mv + 1) = (l1, Inr (rowp s, cols s)) \<and>
     filter_rows Xa r0 0 (query_ball_tree K Xa r0) (replicate (nat (mc + 1)) (replicate (nat (mc + 1)) 0)) = Inr Fm \<and>
     l = l1 @ [Call_computemass (transpose conn_a) (transpose Xa) (replicate (nat (mc + 1)) 1),
               Call_query_ball_tree Xa r0] \<and>
     s = \<lparr>conn = conn_a, vars = vars_a, X = Xa, force = force_a, qval = qval_a, C = Ca,
          nvars = mv + 1, nnodes = mc + 1, cols = cols s, rowp = rowp s,
          Kvals = replicate (length (cols s)) 0,
          total_mass = computemass K (transpose conn_a) (transpose Xa) (replicate (nat (mc + 1)) 1),
          F = Fm, Kmat = None, LU = None, u = None\<rparr>"
  by (auto simp: init_def build_filter_def np_ones_def Let_def split: sum.splits prod.splits if_splits)

subsection \<open>More of the small instance, and of the pattern\<close>

lemma ex_init_large:
  "init ex_kernels ex_conn ex_vars ex_X ex_force (3/2) 3 ex_C =
  ([Call_computenzpattern [[0], [1]] [[-1, 0], [-1, 1]] [0, 0, 0] [0],
    Call_computenzpattern [[0], [1]] [[-1, 0], [-1, 1]] [0, 2, 4] [0, 0, 0, 0],
    Call_computemass [[0], [1]] [[0, 1], [0, 0]] [1, 1],
    Call_query_ball_tree ex_X (3/2)],
   Inr (ex_state (3/2)))"
  by (simp add: ex_state_large ex_state_eq)

lemma ex_compliance_singular:
  "compliance ex_kernels (ex_state (3/2)) [0, 0] =
     ([Call_computekmat [[0], [1]] [[-1, 0], [-1, 1]] [[0, 1], [0, 0]] 3 [[1]] [0, 0]
         [0, 2, 4] [0, 1, 0, 1] [0, 0, 0, 0],
       Call_factorized \<lparr>data = [0, 0, 0, 0], indices = [0, 1, 0, 1], indptr = [0, 2, 4], shape = (2, 2)\<rparr>],
      (ex_state (3/2))\<lparr>Kvals := [0, 0, 0, 0],
         Kmat := Some \<lparr>data = [0, 0, 0, 0], indices = [0, 1, 0, 1], indptr = [0, 2, 4], shape = (2, 2)\<rparr>\<rparr>,
      Inl RuntimeError)"
  by (simp add: compliance_def ex_state_eq sparse_dot_def dot_def ex_transpose ex_kernels_sel
      inplace_def Let_def)

lemma ex_state_sel:
  "conn (ex_state (3/2)) = ex_conn" "vars (ex_state (3/2)) = ex_vars" "X (ex_state (3/2)) = ex_X"
  "force (ex_state (3/2)) = ex_force" "qval (ex_state (3/2)) = 3" "C (ex_state (3/2)) = ex_C"
  "nvars (ex_state (3/2)) = 2" "nnodes (ex_state (3/2)) = 2" "cols (ex_state (3/2)) = [0, 1, 0, 1]"
  "rowp (ex_state (3/2)) = [0, 2, 4]" "Kvals (ex_state (3/2)) = [0, 0, 0, 0]"
  "total_mass (ex_state (3/2)) = 1" "F (ex_state (3/2)) = [[3/4, 1/4], [1/4, 3/4]]"
  "Kmat (ex_state (3/2)) = None" "LU (ex_state (3/2)) = None" "u (ex_state (3/2)) = None"
  by (simp_all add: ex_state_eq)

lemma ex_evalObjCon:
  "evalObjCon ex_kernels (ex_state (3/2)) [1, 0] =
     ([Call_computekmat [[0], [1]] [[-1, 0], [-1, 1]] [[0, 1], [0, 0]] 3 [[1]] [3/4, 1/4]
         [0, 2, 4] [0, 1, 0, 1] [0, 0, 0, 0],
       Call_factorized \<lparr>data = [1, 0, 0, 1], indices = [0, 1, 0, 1], indptr = [0, 2, 4], shape = (2, 2)\<rparr>,
       Call_LU [0, 1],
       Call_computemass [[0], [1]] [[0, 1], [0, 0]] [1, 0]],
      (ex_state (3/2))\<lparr>Kvals := [1, 0, 0, 1],
         Kmat := Some \<lparr>data = [1, 0, 0, 1], indices = [0, 1, 0, 1], indptr = [0, 2, 4], shape = (2, 2)\<rparr>,
         LU := Some (map (\<lambda>v. v / 1)), u := Some [0, 1]\<rparr>,
      Inr (0, 1, [- 1 / 10]))"
  by (simp add: evalObjCon_def ex_compliance mass_def ex_state_sel ex_transpose ex_kernels_sel)

lemma ex_evalObjCon_singular:
  "evalObjCon ex_kernels (ex_state (3/2)) [0, 0] =
     ([Call_computekmat [[0], [1]] [[-1, 0], [-1, 1]] [[0, 1], [0, 0]] 3 [[1]] [0, 0]
         [0, 2, 4] [0, 1, 0, 1] [0, 0, 0, 0],
       Call_factorized \<lparr>data = [0, 0, 0, 0], indices = [0, 1, 0, 1], indptr = [0, 2, 4], shape = (2, 2)\<rparr>],
      (ex_state (3/2))\<lparr>Kvals := [0, 0, 0, 0],
         Kmat := Some \<lparr>data = [0, 0, 0, 0], indices = [0, 1, 0, 1], indptr = [0, 2, 4], shape = (2, 2)\<rparr>\<rparr>,
      Inl RuntimeError)"
  by (simp add: evalObjCon_def ex_compliance_singular)

lemma ex_solved_eq:
  "fst (snd (compliance ex_kernels (ex_state (3/2)) [1, 0])) =
     \<lparr>conn = ex_conn, vars = ex_vars, X = ex_X, force = ex_force,
       qval = 3, C = ex_C, nvars = 2, nnodes = 2,
       cols = [0, 1, 0, 1], rowp = [0, 2, 4], Kvals = [1, 0, 0, 1],
       total_mass = 1, F = [[3/4, 1/4], [1/4, 3/4]],
       Kmat = Some \<lparr>data = [1, 0, 0, 1], indices = [0, 1, 0, 1], indptr = [0, 2, 4], shape = (2, 2)\<rparr>,
       LU = Some (map (\<lambda>v. v / 1)), u = Some [0, 1]\<rparr>"
  by (simp add: ex_compliance) (simp add: ex_state_eq)

lemma build_pattern_cols:
  "build_pattern K conn_a vars_a nv = (l, Inr (rp, cl)) \<Longrightarrow>
   int (length cl) \<le> fst (computenzpattern K (transpose conn_a) (transpose vars_a) (replicate (nat (nv + 1)) 0) [0]) \<Longrightarrow>
   cl = take (length cl)
          (inplace (replicate (nat (fst (computenzpattern K (transpose conn_a) (transpose vars_a) (replicate (nat (nv + 1)) 0) [0]))) 0)
             (snd (snd (computenzpattern K (transpose conn_a) (transpose vars_a)
                (inplace (replicate (nat (nv + 1)) 0)
                   (fst (snd (computenzpattern K (transpose conn_a) (transpose vars_a) (replicate (nat (nv + 1)) 0) [0]))))
                (replicate (nat (fst (computenzpattern K (transpose conn_a) (transpose vars_a) (replicate (nat (nv + 1)) 0) [0]))) 0)))))"
  by (auto simp: build_pattern_def np_zeros_def Let_def inplace_length assign_slice_def last_item_def
      split: if_splits prod.splits sum.splits list.splits)

subsection \<open>Rows of the filter matrix\<close>

lemma sum_list_map_divide:
  "sum_list (map (\<lambda>j. f j / c) xs) = sum_list (map f xs) / (c::real)"
  by (induction xs) (simp_all add: add_divide_distrib)

lemma weight_pos: "0 < r0 \<Longrightarrow> node_dist Xa i j < r0 \<Longrightarrow> 0 < weight Xa r0 i j"
  by (simp add: weight_def)

lemma weight_le_one: "0 < r0 \<Longrightarrow> weight Xa r0 i j \<le> 1"
  using node_dist_nonneg[of Xa i j] by (simp add: weight_def)

lemma weight_self: "r0 \<noteq> 0 \<Longrightarrow> weight Xa r0 i i = 1"
  by (simp add: weight_def node_dist_self)

lemma ball_query_okD:
  "ball_query_ok Xa r0 res \<Longrightarrow>
     length res = length Xa \<and>
     (\<forall>i<length Xa. distinct (res ! i) \<and> (\<forall>j\<in>set (res ! i). j < length Xa) \<and>
        (\<forall>j<length Xa. node_dist Xa i j < r0 \<longrightarrow> j \<in> set (res ! i)))"
  unfolding ball_query_ok_def list_all_iff
  by (simp only: set_upt atLeastLessThan_iff le0 simp_thms Ball_def) (erule conjunct2)

lemma ball_query_contract: "ball_query_ok Xa r0 (ball_query Xa r0)"
  unfolding ball_query_ok_def ball_query_def list_all_iff by simp

lemma fold_upd_map:
  "fold (\<lambda>(j, v) row. row[j := v]) (zip js (map f js)) (replicate n z) =
     map (\<lambda>k. if k \<in> set js then f k else z) [0..<n]"
  by (rule nth_equalityI) (simp_all add: fold_upd_length fold_upd_nth)

lemma init_filter_row:
  assumes "init K conn_a vars_a Xa force_a r0 qval_a Ca = (l, Inr s)"
    and "i < length (query_ball_tree K Xa r0)"
  shows "i < nat (nnodes s) \<and> length (F s) = nat (nnodes s) \<and>
     (\<forall>j\<in>set (query_ball_tree K Xa r0 ! i). j < length Xa) \<and>
     (\<forall>j\<in>set (filter (\<lambda>j. node_dist Xa i j < r0) (query_ball_tree K Xa r0 ! i)). j < nat (nnodes s)) \<and>
     F s ! i =
       map (\<lambda>k. if k \<in> set (filter (\<lambda>j. node_dist Xa i j < r0) (query_ball_tree K Xa r0 ! i))
                then weight Xa r0 i k /
                  sum_list (map (weight Xa r0 i)
                    (filter (\<lambda>j. node_dist Xa i j < r0) (query_ball_tree K Xa r0 ! i)))
                else 0)
         [0..<nat (nnodes s)]"
proof -
  from init_Inr[OF assms(1)] obtain mv mc l1 Fm where
    fr: "filter_rows Xa r0 0 (query_ball_tree K Xa r0)
           (replicate (nat (mc + 1)) (replicate (nat (mc + 1)) 0)) = Inr Fm" and
    s: "s = \<lparr>conn = conn_a, vars = vars_a, X = Xa, force = force_a, qval = qval_a, C = Ca,
          nvars = mv + 1, nnodes = mc + 1, cols = cols s, rowp = rowp s,
          Kvals = replicate (length (cols s)) 0,
          total_mass = computemass K (transpose conn_a) (transpose Xa) (replicate (nat (mc + 1)) 1),
          F = Fm, Kmat = None, LU = None, u = None\<rparr>"
    by blast
  have sel: "nnodes s = mc + 1" "F s = Fm" by (subst s, simp)+
  have len: "length Fm = nat (mc + 1)"
    using filter_rows_Inr[OF fr, THEN conjunct1] by simp
  note row_i = filter_rows_Inr[OF fr, THEN conjunct2, THEN conjunct2, rule_format, OF assms(2)]
  have i: "i < nat (mc + 1)"
    using row_i[THEN conjunct1] by simp
  have inr: "\<forall>j\<in>set (query_ball_tree K Xa r0 ! i). j < length Xa"
    using row_i[THEN conjunct2, THEN conjunct1] by simp
  have cols: "\<forall>j\<in>set (filter (\<lambda>j. node_dist Xa i j < r0) (query_ball_tree K Xa r0 ! i)). j < nat (mc + 1)"
    using row_i[THEN conjunct2, THEN conjunct2, THEN conjunct1] i by simp
  have row: "Fm ! i = fold (\<lambda>(j, v) row. row[j := v])
            (zip (filter (\<lambda>j. node_dist Xa i j < r0) (query_ball_tree K Xa r0 ! i))
               (map (\<lambda>j. weight Xa r0 i j /
                        sum_list (map (weight Xa r0 i) (filter (\<lambda>j. node_dist Xa i j < r0) (query_ball_tree K Xa r0 ! i))))
                  (filter (\<lambda>j. node_dist Xa i j < r0) (query_ball_tree K Xa r0 ! i))))
            (replicate (nat (mc + 1)) 0)"
    using row_i[THEN conjunct2, THEN conjunct2, THEN conjunct2] i by simp
  show ?thesis
    unfolding sel row fold_upd_map using len i inr cols by simp
qed

lemma init_filter_row_sum:
  assumes "init K conn_a vars_a Xa force_a r0 qval_a Ca = (l, Inr s)"
    and "i < length (query_ball_tree K Xa r0)"
    and "distinct (query_ball_tree K Xa r0 ! i)"
    and "sum_list (map (weight Xa r0 i)
            (filter (\<lambda>j. node_dist Xa i j < r0) (query_ball_tree K Xa r0 ! i))) \<noteq> 0"
  shows "sum_list (F s ! i) = 1"
proof -
  let ?N = "filter (\<lambda>j. node_dist Xa i j < r0) (query_ball_tree K Xa r0 ! i)"
  let ?S = "sum_list (map (weight Xa r0 i) ?N)"
  from init_filter_row[OF assms(1,2)] have
    cols: "\<forall>j\<in>set ?N. j < nat (nnodes s)" and
    row: "F s ! i = map (\<lambda>k. if k \<in> set ?N then weight Xa r0 i k / ?S else 0) [0..<nat (nnodes s)]"
    by blast+
  have d: "distinct ?N" using assms(3) by simp
  have "sum_list (F s ! i) = sum_list (map (\<lambda>k. weight Xa r0 i k / ?S) ?N)"
    unfolding row by (rule sum_list_indicator[OF d cols])
  also have "\<dots> = ?S / ?S" by (rule sum_list_map_divide)
  also have "\<dots> = 1" using assms(4) by simp
  finally show ?thesis .
qed

lemma sum_list_pos_mem:
  "\<forall>x\<in>set xs. 0 < f x \<Longrightarrow> xs \<noteq> [] \<Longrightarrow> 0 < sum_list (map f xs :: real list)"
proof (induction xs)
  case Nil
  then show ?case by simp
next
  case (Cons a xs)
  have "0 \<le> sum_list (map f xs)"
    using Cons.prems(1) by (intro sum_list_nonneg) (auto simp: less_imp_le)
  moreover have "0 < f a" using Cons.prems(1) by simp
  ultimately show ?case by simp
qed

lemma ball_query_ok_length: "ball_query_ok Xa r0 res \<Longrightarrow> length res = length Xa"
  by (rule ball_query_okD[THEN conjunct1])

lemma ball_query_ok_distinct: "ball_query_ok Xa r0 res \<Longrightarrow> i < length Xa \<Longrightarrow> distinct (res ! i)"
  by (rule ball_query_okD[THEN conjunct2, rule_format, THEN conjunct1])

lemma ball_query_ok_range:
  "ball_query_ok Xa r0 res \<Longrightarrow> i < length Xa \<Longrightarrow> j \<in> set (res ! i) \<Longrightarrow> j < length Xa"
  by (rule ball_query_okD[THEN conjunct2, rule_format, THEN conjunct2, THEN conjunct1, rule_format])

lemma ball_query_ok_complete:
  "ball_query_ok Xa r0 res \<Longrightarrow> i < length Xa \<Longrightarrow> j < length Xa \<Longrightarrow> node_dist Xa i j < r0 \<Longrightarrow>
     j \<in> set (res ! i)"
  by (rule ball_query_okD[THEN conjunct2, rule_format, THEN conjunct2, THEN conjunct2, rule_format])

lemma neighbour_weights_nonpos:
  "r0 \<le> 0 \<Longrightarrow> (rlist \<noteq> [] \<longrightarrow> i < length Xa) \<Longrightarrow> \<forall>j\<in>set rlist. j < length Xa \<Longrightarrow>
     neighbour_weights Xa r0 i rlist (w, wv) = Inr (w, wv)"
proof (induction rlist)
  case Nil
  then show ?case by simp
next
  case (Cons j rlist)
  have "\<not> node_dist Xa i j < r0"
    using node_dist_nonneg[of Xa i j] Cons.prems(1) by simp
  moreover have "neighbour_weights Xa r0 i rlist (w, wv) = Inr (w, wv)"
    using Cons by (cases rlist) simp_all
  ultimately show ?case using Cons.prems by (simp add: Let_def)
qed

lemma filter_rows_nonpos:
  "r0 \<le> 0 \<Longrightarrow>
   \<forall>k<length res. i0 + k < length Fm \<and> (res ! k \<noteq> [] \<longrightarrow> i0 + k < length Xa) \<and>
      (\<forall>j\<in>set (res ! k). j < length Xa) \<Longrightarrow>
   filter_rows Xa r0 i0 res Fm = Inr Fm"
proof (induction res arbitrary: i0)
  case Nil
  then show ?case by simp
next
  case (Cons rlist rest)
  from Cons.prems(2)[rule_format, of 0] have
    h0: "i0 < length Fm" "rlist \<noteq> [] \<longrightarrow> i0 < length Xa" "\<forall>j\<in>set rlist. j < length Xa"
    by simp_all
  have nw: "neighbour_weights Xa r0 i0 rlist ([], []) = Inr ([], [])"
    by (rule neighbour_weights_nonpos[OF Cons.prems(1) h0(2) h0(3)])
  have sr: "set_row Fm i0 [] [] = Inr Fm"
    using h0(1) by (simp add: set_row_def)
  have "\<forall>k<length rest. Suc i0 + k < length Fm \<and> (rest ! k \<noteq> [] \<longrightarrow> Suc i0 + k < length Xa) \<and>
      (\<forall>j\<in>set (rest ! k). j < length Xa)"
  proof (intro allI impI)
    fix k assume "k < length rest"
    then have "Suc k < length (rlist # rest)" by simp
    from Cons.prems(2)[rule_format, OF this] 
    show "Suc i0 + k < length Fm \<and> (rest ! k \<noteq> [] \<longrightarrow> Suc i0 + k < length Xa) \<and>
      (\<forall>j\<in>set (rest ! k). j < length Xa)" by simp
  qed
  from Cons.IH[OF Cons.prems(1) this] nw sr show ?case by simp
qed

lemma neighbours_nonempty_sum_pos:
  assumes "0 < r0" and "i \<in> set rlist"
  shows "0 < sum_list (map (weight Xa r0 i) (filter (\<lambda>j. node_dist Xa i j < r0) rlist))"
proof (rule sum_list_pos_mem)
  show "\<forall>x\<in>set (filter (\<lambda>j. node_dist Xa i j < r0) rlist). 0 < weight Xa r0 i x"
    using assms(1) by (simp add: weight_pos)
  have "i \<in> set (filter (\<lambda>j. node_dist Xa i j < r0) rlist)"
    using assms by (simp add: node_dist_self)
  then show "filter (\<lambda>j. node_dist Xa i j < r0) rlist \<noteq> []"
    by (rule contrapos_pn) (simp only: set_simps empty_iff not_False_eq_True)
qed

lemma init_filter_row_contract:
  assumes init: "init K conn_a vars_a Xa force_a r0 qval_a Ca = (l, Inr s)"
    and ok: "ball_query_ok Xa r0 (query_ball_tree K Xa r0)"
    and i: "i < length Xa"
  shows "i < nat (nnodes s)"
    and "set (filter (\<lambda>j. node_dist Xa i j < r0) (query_ball_tree K Xa r0 ! i)) =
           {k. k < length Xa \<and> node_dist Xa i k < r0}"
    and "sum_list (map (weight Xa r0 i) (filter (\<lambda>j. node_dist Xa i j < r0) (query_ball_tree K Xa r0 ! i))) =
           (\<Sum>k | k < length Xa \<and> node_dist Xa i k < r0. weight Xa r0 i k)"
proof -
  have ires: "i < length (query_ball_tree K Xa r0)"
    using i ball_query_ok_length[OF ok] by simp
  show "i < nat (nnodes s)"
    using init_filter_row[OF init ires] by blast
  show eq: "set (filter (\<lambda>j. node_dist Xa i j < r0) (query_ball_tree K Xa r0 ! i)) =
           {k. k < length Xa \<and> node_dist Xa i k < r0}"
  proof (intro set_eqI iffI)
    fix k assume "k \<in> set (filter (\<lambda>j. node_dist Xa i j < r0) (query_ball_tree K Xa r0 ! i))"
    then have "k \<in> set (query_ball_tree K Xa r0 ! i)" "node_dist Xa i k < r0" by simp_all
    with ball_query_ok_range[OF ok i] show "k \<in> {k. k < length Xa \<and> node_dist Xa i k < r0}" by simp
  next
    fix k assume "k \<in> {k. k < length Xa \<and> node_dist Xa i k < r0}"
    then have k: "k < length Xa" "node_dist Xa i k < r0" by simp_all
    from ball_query_ok_complete[OF ok i k] k(2)
    show "k \<in> set (filter (\<lambda>j. node_dist Xa i j < r0) (query_ball_tree K Xa r0 ! i))" by simp
  qed
  have d: "distinct (filter (\<lambda>j. node_dist Xa i j < r0) (query_ball_tree K Xa r0 ! i))"
    using ball_query_ok_distinct[OF ok i] by simp
  show "sum_list (map (weight Xa r0 i) (filter (\<lambda>j. node_dist Xa i j < r0) (query_ball_tree K Xa r0 ! i))) =
           (\<Sum>k | k < length Xa \<and> node_dist Xa i k < r0. weight Xa r0 i k)"
    using sum_list_distinct_conv_sum_set[OF d, of "weight Xa r0 i"] unfolding eq .
qed

lemma init_row_sum_one:
  assumes init: "init K conn_a vars_a Xa force_a r0 qval_a Ca = (l, Inr s)"
    and ok: "ball_query_ok Xa r0 (query_ball_tree K Xa r0)"
    and r0: "0 < r0" and i: "i < length Xa"
  shows "sum_list (F s ! i) = 1"
proof -
  have ires: "i < length (query_ball_tree K Xa r0)"
    using i ball_query_ok_length[OF ok] by simp
  have "node_dist Xa i i < r0" using r0 by (simp add: node_dist_self)
  from ball_query_ok_complete[OF ok i i this]
  have "0 < sum_list (map (weight Xa r0 i)
          (filter (\<lambda>j. node_dist Xa i j < r0) (query_ball_tree K Xa r0 ! i)))"
    by (rule neighbours_nonempty_sum_pos[OF r0])
  then have "sum_list (map (weight Xa r0 i)
          (filter (\<lambda>j. node_dist Xa i j < r0) (query_ball_tree K Xa r0 ! i))) \<noteq> 0" by simp
  from init_filter_row_sum[OF init ires ball_query_ok_distinct[OF ok i] this]
  show ?thesis .
qed

lemma init_row_nonneg:
  assumes init: "init K conn_a vars_a Xa force_a r0 qval_a Ca = (l, Inr s)"
    and r0: "0 < r0" and ires: "i < length (query_ball_tree K Xa r0)"
  shows "\<forall>v\<in>set (F s ! i). 0 \<le> v"
proof -
  let ?N = "filter (\<lambda>j. node_dist Xa i j < r0) (query_ball_tree K Xa r0 ! i)"
  have row: "F s ! i = map (\<lambda>k. if k \<in> set ?N then weight Xa r0 i k / sum_list (map (weight Xa r0 i) ?N) else 0)
         [0..<nat (nnodes s)]"
    using init_filter_row[OF init ires] by blast
  have pos: "\<forall>x\<in>set ?N. 0 < weight Xa r0 i x"
    using r0 by (simp add: weight_pos)
  have s: "0 \<le> sum_list (map (weight Xa r0 i) ?N)"
    using pos by (intro sum_list_nonneg) (auto simp: less_imp_le)
  show ?thesis
  proof
    fix v assume "v \<in> set (F s ! i)"
    then have "v \<in> (\<lambda>k. if k \<in> set ?N then weight Xa r0 i k / sum_list (map (weight Xa r0 i) ?N) else 0) `
        set [0..<nat (nnodes s)]"
      unfolding row set_map .
    then obtain k where "v = (if k \<in> set ?N then weight Xa r0 i k / sum_list (map (weight Xa r0 i) ?N) else 0)"
      by (rule imageE)
    then show "0 \<le> v" using pos s by (cases "k \<in> set ?N") (simp_all add: less_imp_le)
  qed
qed

subsection \<open>The normalisation and the cache\<close>

text \<open>
  The division \<open>w /= np.sum(w)\<close> never has a zero denominator on a list with an
  element: an element is there only for a distance below \<open>r0\<close>, so \<open>r0\<close> is positive
  and so is every weight.
\<close>

lemma normalisation_sum_pos:
  assumes "neighbour_weights Xa r0 i rlist ([], []) = Inr (w, wv)" and "w \<noteq> []"
  shows "0 < sum_list w"
proof -
  let ?N = "filter (\<lambda>j. node_dist Xa i j < r0) rlist"
  from neighbour_weights_Inr[OF assms(1)] have w: "w = map (weight Xa r0 i) ?N" by simp
  with assms(2) have ne: "?N \<noteq> []" by auto
  then obtain j where "j \<in> set ?N" by (cases ?N) auto
  then have "node_dist Xa i j < r0" by simp
  with node_dist_nonneg[of Xa i j] have r0: "0 < r0" by linarith
  have "\<forall>x\<in>set ?N. 0 < weight Xa r0 i x"
    using r0 by (simp add: weight_pos)
  from sum_list_pos_mem[OF this ne] show ?thesis unfolding w .
qed

lemma compliance_caches_u:
  "compliance K s x = (l, s1, Inr c) \<Longrightarrow>
     \<exists>lu. LU s1 = Some lu \<and> u s1 = Some (lu (force s)) \<and> is_LU (last l)"
  by (auto simp: compliance_def Let_def split: sum.splits option.splits)

subsection \<open>The whole filter matrix, and an instance with a node without coordinates\<close>

lemma init_F_length:
  assumes "init K conn_a vars_a Xa force_a r0 qval_a Ca = (l, Inr s)"
  shows "length (F s) = nat (nnodes s)"
proof -
  from init_Inr[OF assms] obtain mv mc l1 Fm where
    fr: "filter_rows Xa r0 0 (query_ball_tree K Xa r0)
           (replicate (nat (mc + 1)) (replicate (nat (mc + 1)) 0)) = Inr Fm" and
    s: "s = \<lparr>conn = conn_a, vars = vars_a, X = Xa, force = force_a, qval = qval_a, C = Ca,
          nvars = mv + 1, nnodes = mc + 1, cols = cols s, rowp = rowp s,
          Kvals = replicate (length (cols s)) 0,
          total_mass = computemass K (transpose conn_a) (transpose Xa) (replicate (nat (mc + 1)) 1),
          F = Fm, Kmat = None, LU = None, u = None\<rparr>"
    by blast
  have sel: "nnodes s = mc + 1" "F s = Fm" by (subst s, simp)+
  show ?thesis
    unfolding sel using filter_rows_Inr[OF fr, THEN conjunct1] by simp
qed

lemma row_stochastic_iff:
  "row_stochastic A \<longleftrightarrow> (\<forall>i<length A. (\<forall>v\<in>set (A ! i). 0 \<le> v) \<and> sum_list (A ! i) = 1)"
  unfolding row_stochastic_def list_all_iff
  by (rule all_set_conv_all_nth)

lemma ex_gap_np_max: "np_max ex_conn_gap = Inr 2"
  by (simp add: np_max_def ex_conn_gap_def)

lemma ex_gap_transpose: "transpose ex_conn_gap = [[0], [2]]"
  by (simp add: ex_conn_gap_def)

lemma ex_gap_build_pattern:
  "build_pattern ex_kernels ex_conn_gap ex_vars 2 =
     ([Call_computenzpattern [[0], [2]] [[-1, 0], [-1, 1]] [0, 0, 0] [0],
       Call_computenzpattern [[0], [2]] [[-1, 0], [-1, 1]] [0, 2, 4] [0, 0, 0, 0]],
      Inr ([0, 2, 4], [0, 1, 0, 1]))"
  by (simp add: build_pattern_def ex_transpose ex_gap_transpose np_zeros_def ex_kernels_def inplace_def
      last_item_def assign_slice_def eval_nat_numeral Let_def)

lemma ex_gap_filter:
  "filter_rows ex_X (3/2) 0 [[0, Suc 0], [0, Suc 0]] [[0, 0, 0], [0, 0, 0], [0, 0, 0]] =
     Inr [[3/4, 1/4, 0], [1/4, 3/4, 0], [0, 0, 0]]"
  by (simp add: ex_len ex_node_dist set_row_def Let_def)

lemma ex_gap_init_tail:
  "filter_rows ex_X r0 0 (ball_query ex_X r0) [[0, 0, 0], [0, 0, 0], [0, 0, 0]] = Inr Fm \<Longrightarrow>
   init ex_kernels ex_conn_gap ex_vars ex_X ex_force r0 3 ex_C =
  ([Call_computenzpattern [[0], [2]] [[-1, 0], [-1, 1]] [0, 0, 0] [0],
    Call_computenzpattern [[0], [2]] [[-1, 0], [-1, 1]] [0, 2, 4] [0, 0, 0, 0],
    Call_computemass [[0], [2]] [[0, 1], [0, 0]] [1, 1, 1],
    Call_query_ball_tree ex_X r0],
   Inr \<lparr>conn = ex_conn_gap, vars = ex_vars, X = ex_X, force = ex_force,
         qval = 3, C = ex_C, nvars = 2, nnodes = 3,
         cols = [0, 1, 0, 1], rowp = [0, 2, 4], Kvals = [0, 0, 0, 0],
         total_mass = 3/2, F = Fm, Kmat = None, LU = None, u = None\<rparr>)"
  by (simp add: init_def ex_np_max ex_gap_np_max ex_gap_build_pattern ex_transpose ex_gap_transpose
      build_filter_def np_ones_def ex_kernels_sel eval_nat_numeral Let_def)

lemma ex_gap_init:
  "init ex_kernels ex_conn_gap ex_vars ex_X ex_force (3/2) 3 ex_C =
  ([Call_computenzpattern [[0], [2]] [[-1, 0], [-1, 1]] [0, 0, 0] [0],
    Call_computenzpattern [[0], [2]] [[-1, 0], [-1, 1]] [0, 2, 4] [0, 0, 0, 0],
    Call_computemass [[0], [2]] [[0, 1], [0, 0]] [1, 1, 1],
    Call_query_ball_tree ex_X (3/2)],
   Inr \<lparr>conn = ex_conn_gap, vars = ex_vars, X = ex_X, force = ex_force,
         qval = 3, C = ex_C, nvars = 2, nnodes = 3,
         cols = [0, 1, 0, 1], rowp = [0, 2, 4], Kvals = [0, 0, 0, 0],
         total_mass = 3/2, F = [[3/4, 1/4, 0], [1/4, 3/4, 0], [0, 0, 0]],
         Kmat = None, LU = None, u = None\<rparr>)"
  by (rule ex_gap_init_tail) (simp only: ex_ball_query_large[of "3/2", simplified] ex_gap_filter)

section \<open>Properties of the mass evaluation\<close>

text \<open>
  C7: \<open>mass(x)\<close> hands the raw vector \<open>x\<close> to the mass kernel, in its single
  external call, and its value does not depend on the filter matrix; \<open>compliance(x)\<close>
  hands the filtered vector \<open>F.dot(x)\<close> to the stiffness kernel, in its first call.
\<close>
theorem mass_uses_raw_density:
  "mass K s x =
     ([Call_computemass (transpose (conn s)) (transpose (X s)) x], s,
      Inr (computemass K (transpose (conn s)) (transpose (X s)) x)) \<and>
   snd (snd (mass K (s\<lparr>F := Fm\<rparr>) x)) = snd (snd (mass K s x)) \<and>
   (int (length x) = nnodes s \<longrightarrow>
      hd (fst (compliance K s x)) =
        Call_computekmat (transpose (conn s)) (transpose (vars s)) (transpose (X s)) (qval s)
          (transpose (C s)) (map (\<lambda>row. dot row x) (F s)) (rowp s) (cols s) (Kvals s))"
  by (simp add: mass_def compliance_def sparse_dot_def Let_def split: option.splits sum.splits)

theorem mass_uses_raw_density_witness:
  "int (length [1, 0 :: real]) = nnodes (ex_state (3/2)) \<and>
   fst (mass ex_kernels (ex_state (3/2)) [1, 0]) = [Call_computemass [[0], [1]] [[0, 1], [0, 0]] [1, 0]] \<and>
   snd (snd (mass ex_kernels (ex_state (3/2)) [1, 0])) = Inr (1/2) \<and>
   hd (fst (compliance ex_kernels (ex_state (3/2)) [1, 0])) =
     Call_computekmat [[0], [1]] [[-1, 0], [-1, 1]] [[0, 1], [0, 0]] 3 [[1]] [3/4, 1/4]
       [0, 2, 4] [0, 1, 0, 1] [0, 0, 0, 0]"
  using mass_uses_raw_density [of ex_kernels "ex_state (3/2)" "[1, 0]"]
  by (simp add: ex_state_eq ex_transpose ex_kernels_sel dot_def)

text \<open>
  C8: \<open>mass_grad\<close> returns the same for two vectors of the same shape: the kernel is
  called with the connectivity, the coordinates and a zero buffer of the shape of \<open>x\<close>,
  and the entries of \<open>x\<close> are not read.
\<close>
theorem mass_grad_constant:
  "length x1 = length x2 \<Longrightarrow>
     mass_grad K s x1 = mass_grad K s x2 \<and>
     fst (mass_grad K s x1) =
       [Call_computemassderiv (transpose (conn s)) (transpose (X s)) (replicate (length x1) 0)]"
  by (simp add: mass_grad_def Let_def)

theorem mass_grad_constant_witness:
  "length [1, 0 :: real] = length [1/2, 1/3 :: real] \<and>
   mass_grad ex_kernels (ex_state (3/2)) [1, 0] = mass_grad ex_kernels (ex_state (3/2)) [1/2, 1/3] \<and>
   snd (snd (mass_grad ex_kernels (ex_state (3/2)) [1/2, 1/3])) = Inr [1/2, 1/2]"
  using mass_grad_constant [of "[1, 0]" "[1/2, 1/3]" ex_kernels "ex_state (3/2)"]
  by (simp add: mass_grad_def ex_kernels_sel inplace_def Let_def)

text \<open>
  C10: \<open>mass(x)\<close> and \<open>mass_grad(x)\<close> leave every attribute of the object as it
  was, so a call of either between \<open>compliance\<close> and \<open>compliance_grad\<close> does not
  change what \<open>compliance_grad\<close> computes from the cached displacement.
\<close>
theorem mass_calls_keep_state:
  "fst (snd (mass K s x)) = s \<and> fst (snd (mass_grad K s x)) = s \<and>
   compliance_grad K (fst (snd (mass K s x))) y = compliance_grad K s y \<and>
   compliance_grad K (fst (snd (mass_grad K s x))) y = compliance_grad K s y"
  by (simp add: mass_def mass_grad_def Let_def)

theorem mass_calls_keep_state_witness:
  "fst (snd (mass ex_kernels (fst (snd (compliance ex_kernels (ex_state (3/2)) [1, 0]))) [1, 0])) =
     fst (snd (compliance ex_kernels (ex_state (3/2)) [1, 0])) \<and>
   u (fst (snd (mass_grad ex_kernels (fst (snd (compliance ex_kernels (ex_state (3/2)) [1, 0]))) [1, 0]))) = Some [0, 1]"
  using mass_calls_keep_state [of ex_kernels "fst (snd (compliance ex_kernels (ex_state (3/2)) [1, 0]))" "[1, 0]"]
  by (simp add: ex_compliance)

section \<open>Properties of the compliance evaluation\<close>

text \<open>
  C3: \<open>compliance_grad(x)\<close> solves no linear system: it neither factorizes nor
  applies a factorization, and its result does not depend on the solver. With a
  displacement \<open>u\<close> cached by an earlier \<open>compliance\<close> call (for whatever argument)
  and an \<open>x\<close> with one entry for each node, its only external call is the stiffness
  derivative kernel, with \<open>u\<close> as both state arguments and the filtered \<open>x\<close>, and
  it returns the negated product of the transposed filter matrix with the derivative
  that the kernel wrote.
\<close>
theorem compliance_grad_adjoint:
  assumes "u s = Some ua" and "int (length x) = nnodes s"
  shows "compliance_grad K s x =
           (let rho = map (\<lambda>row. dot row x) (F s);
                zeros = replicate (length x) 0;
                dKdrho = inplace zeros
                  (computekmatderiv K (transpose (conn s)) (transpose (vars s)) (transpose (X s))
                     (qval s) (transpose (C s)) rho ua ua zeros)
            in ([Call_computekmatderiv (transpose (conn s)) (transpose (vars s)) (transpose (X s))
                   (qval s) (transpose (C s)) rho ua ua zeros],
                s,
                Inr (map uminus (map (\<lambda>col. dot col dKdrho) (transpose (F s)))))) \<and>
         filter (\<lambda>c. is_factorized c \<or> is_LU c) (fst (compliance_grad K s x)) = [] \<and>
         compliance_grad (K\<lparr>factorized := fz\<rparr>) s x = compliance_grad K s x"
  using assms
  by (simp add: compliance_grad_def sparse_dot_def Let_def inplace_length)

theorem compliance_grad_adjoint_witness:
  "u (fst (snd (compliance ex_kernels (ex_state (3/2)) [1, 0]))) = Some [0, 1] \<and>
   int (length [1/2, 1/2 :: real]) = nnodes (fst (snd (compliance ex_kernels (ex_state (3/2)) [1, 0]))) \<and>
   fst (compliance_grad ex_kernels (fst (snd (compliance ex_kernels (ex_state (3/2)) [1, 0]))) [1/2, 1/2]) =
     [Call_computekmatderiv [[0], [1]] [[-1, 0], [-1, 1]] [[0, 1], [0, 0]] 3 [[1]] [1/2, 1/2]
        [0, 1] [0, 1] [0, 0]] \<and>
   snd (snd (compliance_grad ex_kernels (fst (snd (compliance ex_kernels (ex_state (3/2)) [1, 0]))) [1/2, 1/2])) =
     Inr [-1, -1]"
  using compliance_grad_adjoint [of "fst (snd (compliance ex_kernels (ex_state (3/2)) [1, 0]))" "[0, 1]"
      "[1/2, 1/2]" ex_kernels]
  unfolding ex_solved_eq
  by (simp add: ex_transpose ex_kernels_sel dot_def inplace_def Let_def)

text \<open>
  C4: when \<open>compliance(x)\<close> returns, \<open>evalObjCon(x)\<close> returns the fail flag 0, the
  objective \<open>compliance(x)\<close> and the single constraint \<open>0.4 * total_mass - mass(x)\<close>.
  \<open>total_mass\<close> is the result of the one call of the mass kernel that the constructor
  makes, with the density 1 at every node, and it is the same in every state reached
  later.
\<close>
theorem evalObjCon_value:
  assumes "init K conn_a vars_a Xa force_a r0 qval_a Ca = (l0, Inr s0)"
    and "reachable K s0 s"
    and "compliance K s x = (l, s1, Inr obj)"
  shows "evalObjCon K s x =
           (l @ [Call_computemass (transpose conn_a) (transpose Xa) x], s1,
            Inr (0, obj,
                 [4 / 10 * computemass K (transpose conn_a) (transpose Xa) (replicate (nat (nnodes s0)) 1)
                    - computemass K (transpose conn_a) (transpose Xa) x])) \<and>
         snd (snd (mass K s x)) = Inr (computemass K (transpose conn_a) (transpose Xa) x) \<and>
         filter is_computemass l0 =
           [Call_computemass (transpose conn_a) (transpose Xa) (replicate (nat (nnodes s0)) 1)] \<and>
         total_mass s =
           computemass K (transpose conn_a) (transpose Xa) (replicate (nat (nnodes s0)) 1)"
proof -
  from init_Inr[OF assms(1)] obtain mv mc l1 Fm where
    bp: "build_pattern K conn_a vars_a (mv + 1) = (l1, Inr (rowp s0, cols s0))" and
    l0: "l0 = l1 @ [Call_computemass (transpose conn_a) (transpose Xa) (replicate (nat (mc + 1)) 1),
               Call_query_ball_tree Xa r0]" and
    s0: "s0 = \<lparr>conn = conn_a, vars = vars_a, X = Xa, force = force_a, qval = qval_a, C = Ca,
          nvars = mv + 1, nnodes = mc + 1, cols = cols s0, rowp = rowp s0,
          Kvals = replicate (length (cols s0)) 0,
          total_mass = computemass K (transpose conn_a) (transpose Xa) (replicate (nat (mc + 1)) 1),
          F = Fm, Kmat = None, LU = None, u = None\<rparr>"
    by blast
  have f0: "conn s0 = conn_a" "X s0 = Xa" "nnodes s0 = mc + 1"
    "total_mass s0 = computemass K (transpose conn_a) (transpose Xa) (replicate (nat (mc + 1)) 1)"
    by (subst s0, simp)+
  from reachable_frame[OF assms(2)] f0 have fs: "conn s = conn_a" "X s = Xa"
    "total_mass s = computemass K (transpose conn_a) (transpose Xa) (replicate (nat (nnodes s0)) 1)"
    by simp_all
  from compliance_frame[of K s x] assms(3) fs have f1: "conn s1 = conn_a" "X s1 = Xa"
    "total_mass s1 = computemass K (transpose conn_a) (transpose Xa) (replicate (nat (nnodes s0)) 1)"
    by simp_all
  have a: "evalObjCon K s x =
           (l @ [Call_computemass (transpose conn_a) (transpose Xa) x], s1,
            Inr (0, obj,
                 [4 / 10 * computemass K (transpose conn_a) (transpose Xa) (replicate (nat (nnodes s0)) 1)
                    - computemass K (transpose conn_a) (transpose Xa) x]))"
    by (simp add: evalObjCon_def assms(3) mass_def f1)
  have b: "snd (snd (mass K s x)) = Inr (computemass K (transpose conn_a) (transpose Xa) x)"
    by (simp add: mass_def fs)
  have c: "filter is_computemass l0 =
           [Call_computemass (transpose conn_a) (transpose Xa) (replicate (nat (nnodes s0)) 1)]"
    by (simp add: l0 build_pattern_log[OF bp] f0)
  from a b c fs(3) show ?thesis by blast
qed

theorem evalObjCon_value_witness:
  "init ex_kernels ex_conn ex_vars ex_X ex_force (3/2) 3 ex_C =
     ([Call_computenzpattern [[0], [1]] [[-1, 0], [-1, 1]] [0, 0, 0] [0],
       Call_computenzpattern [[0], [1]] [[-1, 0], [-1, 1]] [0, 2, 4] [0, 0, 0, 0],
       Call_computemass [[0], [1]] [[0, 1], [0, 0]] [1, 1],
       Call_query_ball_tree ex_X (3/2)],
      Inr (ex_state (3/2))) \<and>
   reachable ex_kernels (ex_state (3/2)) (ex_state (3/2)) \<and>
   snd (snd (compliance ex_kernels (ex_state (3/2)) [1, 0])) = Inr 1 \<and>
   snd (snd (evalObjCon ex_kernels (ex_state (3/2)) [1, 0])) = Inr (0, 1, [- 1 / 10])"
  using evalObjCon_value [OF ex_init_large reachable_init ex_compliance]
  by (simp add: ex_init_large reachable_init ex_compliance ex_evalObjCon)

text \<open>
  C5, amended: when the factorization that \<open>evalObjCon(x)\<close> attempts fails, the
  exception leaves \<open>evalObjCon\<close>: no triple, hence no fail flag, is returned. The
  factorization is attempted once and no solve follows it. The fail flag is 0 in every
  triple that \<open>evalObjCon\<close> or \<open>evalObjConGradient\<close> returns, and
  \<open>evalObjConGradient\<close> factorizes nothing.
\<close>
theorem factorization_failure_raises:
  assumes "Call_factorized M \<in> set (fst (evalObjCon K s x))" and "factorized K M = None"
  shows "snd (snd (evalObjCon K s x)) = Inl RuntimeError \<and>
         filter is_factorized (fst (evalObjCon K s x)) = [Call_factorized M] \<and>
         filter is_LU (fst (evalObjCon K s x)) = [] \<and>
         (\<forall>fl obj con. snd (snd (evalObjCon K s y)) = Inr (fl, obj, con) \<longrightarrow> fl = 0) \<and>
         (\<forall>fl ga Aa. snd (snd (evalObjConGradient K s y g A)) = Inr (fl, ga, Aa) \<longrightarrow> fl = 0) \<and>
         filter is_factorized (fst (evalObjConGradient K s y g A)) = []"
proof -
  have flag1: "\<forall>fl obj con. snd (snd (evalObjCon K s y)) = Inr (fl, obj, con) \<longrightarrow> fl = 0"
    by (auto simp: evalObjCon_def mass_def Let_def split: prod.splits sum.splits)
  have flag2: "\<forall>fl ga Aa. snd (snd (evalObjConGradient K s y g A)) = Inr (fl, ga, Aa) \<longrightarrow> fl = 0"
    by (auto simp: evalObjConGradient_def Let_def split: prod.splits sum.splits list.splits)
  have nofac: "filter is_factorized (fst (evalObjConGradient K s y g A)) = []"
    by (auto simp: evalObjConGradient_def compliance_grad_def mass_grad_def Let_def
        split: prod.splits sum.splits list.splits option.splits)
  have main: "snd (snd (evalObjCon K s x)) = Inl RuntimeError \<and>
         filter is_factorized (fst (evalObjCon K s x)) = [Call_factorized M] \<and>
         filter is_LU (fst (evalObjCon K s x)) = []"
    using assms
    by (auto simp: evalObjCon_def compliance_def mass_def Let_def
        split: prod.splits sum.splits option.splits)
  from main flag1 flag2 nofac show ?thesis by blast
qed

theorem factorization_failure_raises_witness:
  "Call_factorized \<lparr>data = [0, 0, 0, 0], indices = [0, 1, 0, 1], indptr = [0, 2, 4], shape = (2, 2)\<rparr>
     \<in> set (fst (evalObjCon ex_kernels (ex_state (3/2)) [0, 0])) \<and>
   factorized ex_kernels \<lparr>data = [0, 0, 0, 0], indices = [0, 1, 0, 1], indptr = [0, 2, 4], shape = (2, 2)\<rparr> = None \<and>
   snd (snd (evalObjCon ex_kernels (ex_state (3/2)) [0, 0])) = Inl RuntimeError \<and>
   snd (snd (evalObjCon ex_kernels (ex_state (3/2)) [1, 0])) = Inr (0, 1, [- 1 / 10])"
  using factorization_failure_raises [of
      "\<lparr>data = [0, 0, 0, 0], indices = [0, 1, 0, 1], indptr = [0, 2, 4], shape = (2, 2)\<rparr>"
      ex_kernels "ex_state (3/2)" "[0, 0]" "[1, 0]"]
  by (simp add: ex_evalObjCon_singular ex_evalObjCon ex_kernels_sel)

text \<open>
  C5 as stated fails on the small instance with the density zero: the factorization
  fails and \<open>evalObjCon\<close> raises instead of returning a fail flag.
\<close>
theorem fail_flag_counterexample:
  "factorized ex_kernels \<lparr>data = [0, 0, 0, 0], indices = [0, 1, 0, 1], indptr = [0, 2, 4], shape = (2, 2)\<rparr> = None \<and>
   evalObjCon ex_kernels (ex_state (3/2)) [0, 0] =
     ([Call_computekmat [[0], [1]] [[-1, 0], [-1, 1]] [[0, 1], [0, 0]] 3 [[1]] [0, 0]
         [0, 2, 4] [0, 1, 0, 1] [0, 0, 0, 0],
       Call_factorized \<lparr>data = [0, 0, 0, 0], indices = [0, 1, 0, 1], indptr = [0, 2, 4], shape = (2, 2)\<rparr>],
      (ex_state (3/2))\<lparr>Kvals := [0, 0, 0, 0],
         Kmat := Some \<lparr>data = [0, 0, 0, 0], indices = [0, 1, 0, 1], indptr = [0, 2, 4], shape = (2, 2)\<rparr>\<rparr>,
      Inl RuntimeError)"
  by (simp add: ex_evalObjCon_singular ex_kernels_sel)

section \<open>Properties of the sparsity pattern\<close>

text \<open>
  C9, amended: the constructor calls the pattern kernel exactly twice, first with a
  column buffer of one element, then with a buffer of the size the first call returned.
  \<open>rowp\<close> has one entry more than there are variables, \<open>cols\<close> has \<open>rowp[-1]\<close>
  entries, the first ones of the filled buffer when the buffer has that many. Both are
  the same in every state reached later, and every assembly in \<open>compliance\<close> is one
  call of the stiffness kernel with them; \<open>compliance\<close> never calls the pattern kernel.
\<close>
theorem pattern_built_once:
  assumes "init K conn_a vars_a Xa force_a r0 qval_a Ca = (l0, Inr s0)"
    and "reachable K s0 s"
  shows "(let connT = transpose conn_a; varsT = transpose vars_a;
              rowp0 = replicate (nat (nvars s0 + 1)) 0;
              ncols = fst (computenzpattern K connT varsT rowp0 [0]);
              rowp1 = inplace rowp0 (fst (snd (computenzpattern K connT varsT rowp0 [0])));
              cols_temp = inplace (replicate (nat ncols) 0)
                 (snd (snd (computenzpattern K connT varsT rowp1 (replicate (nat ncols) 0))))
          in filter is_computenzpattern l0 =
               [Call_computenzpattern connT varsT rowp0 [0],
                Call_computenzpattern connT varsT rowp1 (replicate (nat ncols) 0)] \<and>
             int (length (rowp s0)) = nvars s0 + 1 \<and>
             last_item (rowp s0) = Inr (int (length (cols s0))) \<and>
             (int (length (cols s0)) \<le> ncols \<longrightarrow> cols s0 = take (length (cols s0)) cols_temp)) \<and>
         rowp s = rowp s0 \<and> cols s = cols s0 \<and>
         (int (length x) = nnodes s \<longrightarrow>
            filter is_computekmat (fst (compliance K s x)) =
              [Call_computekmat (transpose (conn s)) (transpose (vars s)) (transpose (X s)) (qval s)
                 (transpose (C s)) (map (\<lambda>row. dot row x) (F s)) (rowp s0) (cols s0) (Kvals s)]) \<and>
         filter is_computenzpattern (fst (compliance K s x)) = []"
proof -
  from init_Inr[OF assms(1)] obtain mv mc l1 Fm where
    bp: "build_pattern K conn_a vars_a (mv + 1) = (l1, Inr (rowp s0, cols s0))" and
    l0: "l0 = l1 @ [Call_computemass (transpose conn_a) (transpose Xa) (replicate (nat (mc + 1)) 1),
               Call_query_ball_tree Xa r0]" and
    s0: "s0 = \<lparr>conn = conn_a, vars = vars_a, X = Xa, force = force_a, qval = qval_a, C = Ca,
          nvars = mv + 1, nnodes = mc + 1, cols = cols s0, rowp = rowp s0,
          Kvals = replicate (length (cols s0)) 0,
          total_mass = computemass K (transpose conn_a) (transpose Xa) (replicate (nat (mc + 1)) 1),
          F = Fm, Kmat = None, LU = None, u = None\<rparr>"
    by blast
  have nv: "nvars s0 = mv + 1" by (subst s0) simp
  note log = build_pattern_log[OF bp]
  note res = build_pattern_result[OF bp]
  note cl = build_pattern_cols[OF bp]
  have a: "filter is_computenzpattern l0 =
      [Call_computenzpattern (transpose conn_a) (transpose vars_a) (replicate (nat (nvars s0 + 1)) 0) [0],
       Call_computenzpattern (transpose conn_a) (transpose vars_a)
         (inplace (replicate (nat (nvars s0 + 1)) 0)
            (fst (snd (computenzpattern K (transpose conn_a) (transpose vars_a) (replicate (nat (nvars s0 + 1)) 0) [0]))))
         (replicate (nat (fst (computenzpattern K (transpose conn_a) (transpose vars_a) (replicate (nat (nvars s0 + 1)) 0) [0]))) 0)]"
    unfolding nv l0 by (subst log) simp
  from reachable_frame[OF assms(2)] have fr: "rowp s = rowp s0" "cols s = cols s0" by simp_all
  have c: "int (length x) = nnodes s \<longrightarrow>
            filter is_computekmat (fst (compliance K s x)) =
              [Call_computekmat (transpose (conn s)) (transpose (vars s)) (transpose (X s)) (qval s)
                 (transpose (C s)) (map (\<lambda>row. dot row x) (F s)) (rowp s0) (cols s0) (Kvals s)]"
    by (simp add: compliance_def sparse_dot_def Let_def fr split: option.splits sum.splits)
  have d: "filter is_computenzpattern (fst (compliance K s x)) = []"
    by (simp add: compliance_def sparse_dot_def Let_def split: option.splits sum.splits)
  show ?thesis
    unfolding Let_def using a res cl fr c d unfolding nv by blast
qed

theorem pattern_built_once_witness:
  "init ex_kernels ex_conn ex_vars ex_X ex_force (3/2) 3 ex_C =
     ([Call_computenzpattern [[0], [1]] [[-1, 0], [-1, 1]] [0, 0, 0] [0],
       Call_computenzpattern [[0], [1]] [[-1, 0], [-1, 1]] [0, 2, 4] [0, 0, 0, 0],
       Call_computemass [[0], [1]] [[0, 1], [0, 0]] [1, 1],
       Call_query_ball_tree ex_X (3/2)],
      Inr (ex_state (3/2))) \<and>
   reachable ex_kernels (ex_state (3/2)) (fst (snd (compliance ex_kernels (ex_state (3/2)) [1, 0]))) \<and>
   int (length [1/2, 1/2 :: real]) = nnodes (fst (snd (compliance ex_kernels (ex_state (3/2)) [1, 0]))) \<and>
   rowp (fst (snd (compliance ex_kernels (ex_state (3/2)) [1, 0]))) = [0, 2, 4] \<and>
   cols (fst (snd (compliance ex_kernels (ex_state (3/2)) [1, 0]))) = [0, 1, 0, 1] \<and>
   filter is_computekmat
     (fst (compliance ex_kernels (fst (snd (compliance ex_kernels (ex_state (3/2)) [1, 0]))) [1/2, 1/2])) =
     [Call_computekmat [[0], [1]] [[-1, 0], [-1, 1]] [[0, 1], [0, 0]] 3 [[1]] [1/2, 1/2]
        [0, 2, 4] [0, 1, 0, 1] [1, 0, 0, 1]]"
  using pattern_built_once [OF ex_init_large
      reachable_compliance [OF reachable_init, of ex_kernels "ex_state (3/2)" "[1, 0]"],
      of "[1/2, 1/2]"]
    reachable_compliance [OF reachable_init, of ex_kernels "ex_state (3/2)" "[1, 0]"]
  unfolding ex_solved_eq
  by (simp add: ex_init_large ex_state_sel ex_transpose dot_def)

text \<open>
  C9 as stated fails: the column buffer of the first call has one element, it is not
  empty.
\<close>
theorem first_buffer_counterexample:
  "hd (fst (init ex_kernels ex_conn ex_vars ex_X ex_force (3/2) 3 ex_C)) =
     Call_computenzpattern [[0], [1]] [[-1, 0], [-1, 1]] [0, 0, 0] [0] \<and>
   hd (fst (init ex_kernels ex_conn ex_vars ex_X ex_force (3/2) 3 ex_C)) \<noteq>
     Call_computenzpattern [[0], [1]] [[-1, 0], [-1, 1]] [0, 0, 0] []"
  by (simp add: ex_init_large)

section \<open>Properties of the density filter\<close>

text \<open>
  C1, amended: when the radius is positive, \<open>X\<close> has one row for each of the
  \<open>nnodes\<close> nodes and the ball query returns, for each node, a list of nodes without
  repetition that misses no node closer than \<open>r0\<close>, then for every node \<open>i\<close>,
  row \<open>i\<close> of the filter matrix \<open>F\<close> built at construction has only non-negative
  entries and they sum to 1 (in the real arithmetic of this model; in the program,
  within floating-point tolerance). \<open>F\<close> is never modified after construction, so
  every later application of \<open>F\<close>, forward in \<open>compliance\<close> and transposed in
  \<open>compliance_grad\<close>, uses a row-stochastic matrix.
\<close>
theorem filter_row_stochastic:
  assumes "init K conn_a vars_a Xa force_a r0 qval_a Ca = (l, Inr s0)"
    and "ball_query_ok Xa r0 (query_ball_tree K Xa r0)"
    and "0 < r0" and "int (length Xa) = nnodes s0" and "reachable K s0 s"
  shows "length (F s0) = nat (nnodes s0) \<and>
         (\<forall>i<nat (nnodes s0). (\<forall>v\<in>set (F s0 ! i). 0 \<le> v) \<and> sum_list (F s0 ! i) = 1) \<and>
         row_stochastic (F s0) \<and>
         F s = F s0 \<and> row_stochastic (F s) \<and>
         (int (length x) = nnodes s \<longrightarrow>
            hd (fst (compliance K s x)) =
              Call_computekmat (transpose (conn s)) (transpose (vars s)) (transpose (X s)) (qval s)
                (transpose (C s)) (map (\<lambda>row. dot row x) (F s0)) (rowp s) (cols s) (Kvals s)) \<and>
         (int (length x) = nnodes s \<and> u s = Some ua \<longrightarrow>
            snd (snd (compliance_grad K s x)) =
              Inr (map uminus (map (\<lambda>col. dot col
                 (inplace (replicate (length x) 0)
                    (computekmatderiv K (transpose (conn s)) (transpose (vars s)) (transpose (X s))
                       (qval s) (transpose (C s)) (map (\<lambda>row. dot row x) (F s0)) ua ua
                       (replicate (length x) 0))))
                 (transpose (F s0)))))"
proof -
  have lenF: "length (F s0) = nat (nnodes s0)"
    by (rule init_F_length[OF assms(1)])
  have lenres: "length (query_ball_tree K Xa r0) = length Xa"
    by (rule ball_query_ok_length[OF assms(2)])
  have rows: "\<forall>i<nat (nnodes s0). (\<forall>v\<in>set (F s0 ! i). 0 \<le> v) \<and> sum_list (F s0 ! i) = 1"
  proof (intro allI impI)
    fix i assume "i < nat (nnodes s0)"
    then have i: "i < length Xa" using assms(4) by linarith
    then have ires: "i < length (query_ball_tree K Xa r0)" using lenres by simp
    show "(\<forall>v\<in>set (F s0 ! i). 0 \<le> v) \<and> sum_list (F s0 ! i) = 1"
      using init_row_nonneg[OF assms(1) assms(3) ires]
        init_row_sum_one[OF assms(1) assms(2) assms(3) i] by (rule conjI)
  qed
  have rs0: "row_stochastic (F s0)"
    unfolding row_stochastic_iff lenF by (rule rows)
  have fr: "F s = F s0" using reachable_frame[OF assms(5)] by simp
  have fwd: "int (length x) = nnodes s \<longrightarrow>
            hd (fst (compliance K s x)) =
              Call_computekmat (transpose (conn s)) (transpose (vars s)) (transpose (X s)) (qval s)
                (transpose (C s)) (map (\<lambda>row. dot row x) (F s0)) (rowp s) (cols s) (Kvals s)"
    by (simp add: compliance_def sparse_dot_def Let_def fr split: option.splits sum.splits)
  have adj: "int (length x) = nnodes s \<and> u s = Some ua \<longrightarrow>
            snd (snd (compliance_grad K s x)) =
              Inr (map uminus (map (\<lambda>col. dot col
                 (inplace (replicate (length x) 0)
                    (computekmatderiv K (transpose (conn s)) (transpose (vars s)) (transpose (X s))
                       (qval s) (transpose (C s)) (map (\<lambda>row. dot row x) (F s0)) ua ua
                       (replicate (length x) 0))))
                 (transpose (F s0))))"
    by (simp add: compliance_grad_def sparse_dot_def Let_def inplace_length fr)
  have rs: "row_stochastic (F s)" unfolding fr by (rule rs0)
  from lenF rows rs0 fr rs fwd adj show ?thesis by (intro conjI)
qed

theorem filter_row_stochastic_witness:
  "init ex_kernels ex_conn ex_vars ex_X ex_force (3/2) 3 ex_C =
     ([Call_computenzpattern [[0], [1]] [[-1, 0], [-1, 1]] [0, 0, 0] [0],
       Call_computenzpattern [[0], [1]] [[-1, 0], [-1, 1]] [0, 2, 4] [0, 0, 0, 0],
       Call_computemass [[0], [1]] [[0, 1], [0, 0]] [1, 1],
       Call_query_ball_tree ex_X (3/2)],
      Inr (ex_state (3/2))) \<and>
   ball_query_ok ex_X (3/2) (query_ball_tree ex_kernels ex_X (3/2)) \<and>
   (0::real) < 3/2 \<and> int (length ex_X) = nnodes (ex_state (3/2)) \<and>
   reachable ex_kernels (ex_state (3/2)) (fst (snd (compliance ex_kernels (ex_state (3/2)) [1, 0]))) \<and>
   F (fst (snd (compliance ex_kernels (ex_state (3/2)) [1, 0]))) = [[3/4, 1/4], [1/4, 3/4]] \<and>
   row_stochastic (F (fst (snd (compliance ex_kernels (ex_state (3/2)) [1, 0])))) \<and>
   sum_list [3/4, 1/4 :: real] = 1 \<and> sum_list [1/4, 3/4 :: real] = 1"
proof -
  have ok: "ball_query_ok ex_X (3/2) (query_ball_tree ex_kernels ex_X (3/2))"
    by (simp add: ex_kernels_sel ball_query_contract)
  have r: "(0::real) < 3/2" by simp
  have n: "int (length ex_X) = nnodes (ex_state (3/2))" by (simp add: ex_len ex_state_sel)
  have re: "reachable ex_kernels (ex_state (3/2)) (fst (snd (compliance ex_kernels (ex_state (3/2)) [1, 0])))"
    by (rule reachable_compliance[OF reachable_init])
  from filter_row_stochastic [OF ex_init_large ok r n re]
  show ?thesis using ok n re by (simp add: ex_init_large ex_state_sel)
qed

text \<open>
  C1 as stated fails for the radius 0, where construction completes and row 0 of
  \<open>F\<close> is zero, and for a connectivity that names a node for which \<open>X\<close> has no
  row, where construction completes with a positive radius and row 2 of \<open>F\<close> is
  zero.
\<close>
theorem row_sum_counterexample:
  "\<not> isl (snd (init ex_kernels ex_conn ex_vars ex_X ex_force 0 3 ex_C)) \<and>
   F (projr (snd (init ex_kernels ex_conn ex_vars ex_X ex_force 0 3 ex_C))) ! 0 = [0, 0] \<and>
   sum_list (F (projr (snd (init ex_kernels ex_conn ex_vars ex_X ex_force 0 3 ex_C))) ! 0) \<noteq> 1 \<and>
   \<not> isl (snd (init ex_kernels ex_conn_gap ex_vars ex_X ex_force (3/2) 3 ex_C)) \<and>
   nnodes (projr (snd (init ex_kernels ex_conn_gap ex_vars ex_X ex_force (3/2) 3 ex_C))) = 3 \<and>
   F (projr (snd (init ex_kernels ex_conn_gap ex_vars ex_X ex_force (3/2) 3 ex_C))) ! 2 = [0, 0, 0] \<and>
   sum_list (F (projr (snd (init ex_kernels ex_conn_gap ex_vars ex_X ex_force (3/2) 3 ex_C))) ! 2) \<noteq> 1"
  by (simp add: ex_state_zero ex_gap_init)

text \<open>
  C2, amended: for nodes \<open>i\<close> and \<open>j\<close> the entry \<open>F[i,j]\<close> is 0 when their
  distance is at least \<open>r0\<close>, and otherwise the weight \<open>(r0 - d)/r0\<close> divided by the
  sum of the weights of the nodes closer than \<open>r0\<close> to node \<open>i\<close>. For a positive
  radius node \<open>i\<close> itself is one of them, with the weight 1, no weight is larger, and
  row \<open>i\<close> sums to 1. For a radius that is not positive the entry is 0.
\<close>
theorem filter_entries:
  assumes "init K conn_a vars_a Xa force_a r0 qval_a Ca = (l, Inr s)"
    and "ball_query_ok Xa r0 (query_ball_tree K Xa r0)"
    and "i < length Xa" and "j < length Xa"
  shows "F s ! i ! j =
           (if node_dist Xa i j < r0
            then weight Xa r0 i j / (\<Sum>k | k < length Xa \<and> node_dist Xa i k < r0. weight Xa r0 i k)
            else 0) \<and>
         (0 < r0 \<longrightarrow> node_dist Xa i i < r0 \<and> weight Xa r0 i i = 1 \<and> weight Xa r0 i j \<le> 1 \<and>
            sum_list (F s ! i) = 1) \<and>
         (r0 \<le> 0 \<longrightarrow> F s ! i ! j = 0)"
proof -
  let ?N = "filter (\<lambda>j. node_dist Xa i j < r0) (query_ball_tree K Xa r0 ! i)"
  have ires: "i < length (query_ball_tree K Xa r0)"
    using assms(3) ball_query_ok_length[OF assms(2)] by simp
  have row: "F s ! i = map (\<lambda>k. if k \<in> set ?N then weight Xa r0 i k / sum_list (map (weight Xa r0 i) ?N) else 0)
         [0..<nat (nnodes s)]"
    using init_filter_row[OF assms(1) ires] by blast
  note c = init_filter_row_contract[OF assms(1,2,3)]
  have jn: "j < nat (nnodes s)"
    by (rule init_filter_row_contract(1)[OF assms(1,2,4)])
  have mem: "j \<in> set ?N \<longleftrightarrow> node_dist Xa i j < r0"
    unfolding c(2) using assms(4) by simp
  have entry: "F s ! i ! j =
           (if node_dist Xa i j < r0
            then weight Xa r0 i j / (\<Sum>k | k < length Xa \<and> node_dist Xa i k < r0. weight Xa r0 i k)
            else 0)"
  proof -
    have "F s ! i ! j =
        (if j \<in> set ?N then weight Xa r0 i j / sum_list (map (weight Xa r0 i) ?N) else 0)"
      unfolding row using jn by (simp del: set_filter)
    then show ?thesis unfolding mem c(3) .
  qed
  have pos: "0 < r0 \<longrightarrow> node_dist Xa i i < r0 \<and> weight Xa r0 i i = 1 \<and> weight Xa r0 i j \<le> 1 \<and>
            sum_list (F s ! i) = 1"
  proof
    assume r0: "0 < r0"
    show "node_dist Xa i i < r0 \<and> weight Xa r0 i i = 1 \<and> weight Xa r0 i j \<le> 1 \<and> sum_list (F s ! i) = 1"
      using r0 init_row_sum_one[OF assms(1,2) r0 assms(3)]
      by (simp add: node_dist_self weight_self weight_le_one)
  qed
  have nonpos: "r0 \<le> 0 \<longrightarrow> F s ! i ! j = 0"
    using entry node_dist_nonneg[of Xa i j] by simp
  from entry pos nonpos show ?thesis by blast
qed

theorem filter_entries_witness:
  "init ex_kernels ex_conn ex_vars ex_X ex_force (3/2) 3 ex_C =
     ([Call_computenzpattern [[0], [1]] [[-1, 0], [-1, 1]] [0, 0, 0] [0],
       Call_computenzpattern [[0], [1]] [[-1, 0], [-1, 1]] [0, 2, 4] [0, 0, 0, 0],
       Call_computemass [[0], [1]] [[0, 1], [0, 0]] [1, 1],
       Call_query_ball_tree ex_X (3/2)],
      Inr (ex_state (3/2))) \<and>
   ball_query_ok ex_X (3/2) (query_ball_tree ex_kernels ex_X (3/2)) \<and>
   0 < length ex_X \<and> Suc 0 < length ex_X \<and> (0::real) < 3/2 \<and>
   node_dist ex_X 0 (Suc 0) < 3/2 \<and> weight ex_X (3/2) 0 (Suc 0) = 1/3 \<and>
   (\<Sum>k | k < length ex_X \<and> node_dist ex_X 0 k < 3/2. weight ex_X (3/2) 0 k) = 4/3 \<and>
   F (ex_state (3/2)) ! 0 ! Suc 0 = 1/4"
proof -
  have ok: "ball_query_ok ex_X (3/2) (query_ball_tree ex_kernels ex_X (3/2))"
    by (simp add: ex_kernels_sel ball_query_contract)
  have i: "0 < length ex_X" and j: "Suc 0 < length ex_X" by (simp_all add: ex_len)
  have w: "weight ex_X (3/2) 0 (Suc 0) = 1/3" by (simp add: weight_def ex_node_dist)
  have d: "node_dist ex_X 0 (Suc 0) < 3/2" by (simp add: ex_node_dist)
  from filter_entries [OF ex_init_large ok i j]
  show ?thesis using ok i j w d by (simp add: ex_init_large ex_state_sel)
qed

text \<open>
  C2 as stated fails for the radius 0: node 0 is at distance 0 of itself and does not
  contribute to its row, which sums to 0.
\<close>
theorem self_weight_counterexample:
  "\<not> isl (snd (init ex_kernels ex_conn ex_vars ex_X ex_force 0 3 ex_C)) \<and>
   node_dist ex_X 0 0 = 0 \<and>
   F (projr (snd (init ex_kernels ex_conn ex_vars ex_X ex_force 0 3 ex_C))) ! 0 ! 0 = 0 \<and>
   sum_list (F (projr (snd (init ex_kernels ex_conn ex_vars ex_X ex_force 0 3 ex_C))) ! 0) = 0"
  by (simp add: ex_state_zero ex_node_dist)

text \<open>
  C6, amended: the constructor does not check the radius. For \<open>r0 \<le> 0\<close>, when
  \<open>np.max\<close> of both index arrays and the construction of the pattern succeed, \<open>X\<close>
  has no more rows than there are nodes and the ball query returns lists of nodes,
  construction completes and returns an evaluator, whose filter matrix is zero.
\<close>
theorem nonpositive_radius_accepted:
  assumes "r0 \<le> 0"
    and "np_max vars_a = Inr mv" and "np_max conn_a = Inr mc"
    and "build_pattern K conn_a vars_a (mv + 1) = (l1, Inr (rp, cl))"
    and "int (length Xa) \<le> mc + 1"
    and "ball_query_ok Xa r0 (query_ball_tree K Xa r0)"
  shows "init K conn_a vars_a Xa force_a r0 qval_a Ca =
    (l1 @ [Call_computemass (transpose conn_a) (transpose Xa) (replicate (nat (mc + 1)) 1),
           Call_query_ball_tree Xa r0],
     Inr \<lparr>conn = conn_a, vars = vars_a, X = Xa, force = force_a, qval = qval_a, C = Ca,
          nvars = mv + 1, nnodes = mc + 1, cols = cl, rowp = rp,
          Kvals = replicate (length cl) 0,
          total_mass = computemass K (transpose conn_a) (transpose Xa) (replicate (nat (mc + 1)) 1),
          F = replicate (nat (mc + 1)) (replicate (nat (mc + 1)) 0),
          Kmat = None, LU = None, u = None\<rparr>)"
proof -
  have "\<forall>k<length (query_ball_tree K Xa r0).
      0 + k < length (replicate (nat (mc + 1)) (replicate (nat (mc + 1)) (0::real))) \<and>
      (query_ball_tree K Xa r0 ! k \<noteq> [] \<longrightarrow> 0 + k < length Xa) \<and>
      (\<forall>j\<in>set (query_ball_tree K Xa r0 ! k). j < length Xa)"
  proof (intro allI impI)
    fix k assume "k < length (query_ball_tree K Xa r0)"
    then have k: "k < length Xa" using ball_query_ok_length[OF assms(6)] by simp
    then have "k < nat (mc + 1)" using assms(5) by linarith
    moreover have "\<forall>j\<in>set (query_ball_tree K Xa r0 ! k). j < length Xa"
      using ball_query_ok_range[OF assms(6) k] by blast
    ultimately show "0 + k < length (replicate (nat (mc + 1)) (replicate (nat (mc + 1)) (0::real))) \<and>
      (query_ball_tree K Xa r0 ! k \<noteq> [] \<longrightarrow> 0 + k < length Xa) \<and>
      (\<forall>j\<in>set (query_ball_tree K Xa r0 ! k). j < length Xa)"
      using k by simp
  qed
  from filter_rows_nonpos[OF assms(1) this]
  have fr: "filter_rows Xa r0 0 (query_ball_tree K Xa r0)
      (replicate (nat (mc + 1)) (replicate (nat (mc + 1)) 0)) =
      Inr (replicate (nat (mc + 1)) (replicate (nat (mc + 1)) 0))" .
  have nn: "\<not> mc + 1 < 0" using assms(5) by simp
  show ?thesis
    by (simp add: init_def assms(2,3,4) np_ones_def nn build_filter_def fr Let_def)
qed

theorem nonpositive_radius_accepted_witness:
  "(0::real) \<le> 0 \<and> np_max ex_vars = Inr 1 \<and> np_max ex_conn = Inr 1 \<and>
   int (length ex_X) \<le> 1 + 1 \<and>
   ball_query_ok ex_X 0 (query_ball_tree ex_kernels ex_X 0) \<and>
   snd (init ex_kernels ex_conn ex_vars ex_X ex_force 0 3 ex_C) =
     Inr \<lparr>conn = ex_conn, vars = ex_vars, X = ex_X, force = ex_force, qval = 3, C = ex_C,
          nvars = 2, nnodes = 2, cols = [0, 1, 0, 1], rowp = [0, 2, 4],
          Kvals = [0, 0, 0, 0], total_mass = 1, F = [[0, 0], [0, 0]],
          Kmat = None, LU = None, u = None\<rparr>"
proof -
  have ok: "ball_query_ok ex_X 0 (query_ball_tree ex_kernels ex_X 0)"
    by (simp add: ex_kernels_sel ball_query_contract)
  have bp: "build_pattern ex_kernels ex_conn ex_vars (1 + 1) =
     ([Call_computenzpattern [[0], [1]] [[-1, 0], [-1, 1]] [0, 0, 0] [0],
       Call_computenzpattern [[0], [1]] [[-1, 0], [-1, 1]] [0, 2, 4] [0, 0, 0, 0]],
      Inr ([0, 2, 4], [0, 1, 0, 1]))"
    using ex_build_pattern by simp
  have len: "int (length ex_X) \<le> 1 + 1" by (simp add: ex_len)
  from nonpositive_radius_accepted [OF order_refl ex_np_max(1) ex_np_max(2) bp len ok, of ex_force 3 ex_C]
  show ?thesis using ok len
    by (simp add: ex_np_max ex_transpose ex_kernels_sel eval_nat_numeral)
qed

text \<open>
  C6 as stated fails: with the radius 0 and with the radius -1 the constructor returns
  an evaluator.
\<close>
theorem nonpositive_radius_counterexample:
  "\<not> isl (snd (init ex_kernels ex_conn ex_vars ex_X ex_force 0 3 ex_C)) \<and>
   \<not> isl (snd (init ex_kernels ex_conn ex_vars ex_X ex_force (- 1) 3 ex_C))"
  by (simp add: ex_state_zero ex_state_neg)

end
